theory Spec2Isabelle
  imports Main
begin

section \<open>Data model of config.go\<close>

text \<open>
  The Go structs of \<^verbatim>\<open>config.go\<close> as records. Go strings are byte sequences, so
  \<open>string\<close> (a list of 8-bit characters) is the carrier; a \<^verbatim>\<open>*string\<close> is a
  \<open>string option\<close> (\<open>None\<close> for nil); a \<^verbatim>\<open>map[string]string\<close> is a partial map.
  Only the fields read or written by the functions embedded below are kept. The
  pointer \<^verbatim>\<open>config.tgf\<close> to the application object is not a field of the record: a
  function that dereferences it takes the application as its argument \<open>app\<close>.
\<close>

record TGFConfigBuild =
  Instructions :: string
  Folder :: string
  Tag :: string
  source :: string

text \<open>
  The fields of \<^verbatim>\<open>TGFApplication\<close> (declared outside config.go) that config.go reads.
  \<open>CliImageVersion\<close> is its field \<^verbatim>\<open>ImageVersion\<close>, the image version given on the
  command line, under a name of its own beside the field of the configuration.
\<close>

record TGFApplication =
  AwsProfile :: string
  ConfigDump :: bool
  UseAWS :: bool
  CliImageVersion :: string
  Unmanaged :: "string list"

record TGFConfig =
  Image :: string
  ImageVersion :: "string option"
  ImageTag :: "string option"
  ImageBuild :: string
  ImageBuildFolder :: string
  ImageBuildTag :: string
  RecommendedImageVersion :: string
  RequiredVersionRange :: string
  RecommendedTGFVersion :: string
  Environment :: "string \<rightharpoonup> string"
  RunBefore :: string
  RunAfter :: string
  Aliases :: "string \<rightharpoonup> string"
  runBeforeCommands :: "string list"
  runAfterCommands :: "string list"
  imageBuildConfigs :: "TGFConfigBuild list"

definition tagSeparator :: string where
  "tagSeparator = ''-''"

section \<open>Strings, paths and the process environment\<close>

text \<open>
  The functions of Go's \<^verbatim>\<open>strings\<close> and \<^verbatim>\<open>path/filepath\<close> packages that config.go
  calls, on byte strings and with the Unix separator.
\<close>

definition hasPrefix :: "string \<Rightarrow> string \<Rightarrow> bool" where
  "hasPrefix s p = (take (length p) s = p)"

fun contains :: "string \<Rightarrow> string \<Rightarrow> bool" where
  "contains [] sub = (sub = [])"
| "contains (c # cs) sub = (hasPrefix (c # cs) sub \<or> contains cs sub)"

fun countChar :: "char \<Rightarrow> string \<Rightarrow> nat" where
  "countChar c [] = 0"
| "countChar c (x # xs) = (if x = c then Suc (countChar c xs) else countChar c xs)"

fun splitChar :: "char \<Rightarrow> string \<Rightarrow> string list" where
  "splitChar c [] = [[]]"
| "splitChar c (x # xs) =
     (if x = c then [] # splitChar c xs
      else (case splitChar c xs of [] \<Rightarrow> [[x]] | w # ws \<Rightarrow> (x # w) # ws))"

fun joinWith :: "string \<Rightarrow> string list \<Rightarrow> string" where
  "joinWith sep [] = []"
| "joinWith sep [x] = x"
| "joinWith sep (x # y # ys) = x @ sep @ joinWith sep (y # ys)"

text \<open>
  \<^verbatim>\<open>filepath.Clean\<close>, on the elements between slashes: empty elements and \<open>.\<close> are
  dropped, \<open>..\<close> removes the element before it when there is one to remove, is dropped
  at the root and is kept at the front of a relative path. The stack holds the elements
  kept so far, last one first.
\<close>

definition cleanStep :: "bool \<Rightarrow> string list \<Rightarrow> string \<Rightarrow> string list" where
  "cleanStep rooted stack elem =
     (if elem = '''' \<or> elem = ''.'' then stack
      else if elem = ''..'' then
        (case stack of
           [] \<Rightarrow> if rooted then [] else [''..'']
         | t # ts \<Rightarrow> if t \<noteq> ''..'' then ts else if rooted then stack else ''..'' # stack)
      else elem # stack)"

definition Clean :: "string \<Rightarrow> string" where
  "Clean path =
     (if path = '''' then ''.''
      else
        (let rooted = hasPrefix path ''/'';
             stack = foldl (cleanStep rooted) [] (splitChar CHR ''/'' path);
             out = (if rooted then ''/'' else '''') @ joinWith ''/'' (rev stack)
         in if out = '''' then ''.'' else out))"

text \<open>\<^verbatim>\<open>filepath.Join\<close>: the elements from the first non-empty one on, joined and cleaned.\<close>

definition Join :: "string list \<Rightarrow> string" where
  "Join elem =
     (case dropWhile (\<lambda>e. e = '''') elem of
        [] \<Rightarrow> ''''
      | es \<Rightarrow> Clean (joinWith ''/'' es))"

text \<open>\<^verbatim>\<open>filepath.Dir\<close>: all but the last element of the path, cleaned.\<close>

definition Dir :: "string \<Rightarrow> string" where
  "Dir path = Clean (rev (dropWhile (\<lambda>c. c \<noteq> CHR ''/'') (rev path)))"

text \<open>\<^verbatim>\<open>filepath.Base\<close>: the last element of the path, after trailing slashes are removed.\<close>

definition Base :: "string \<Rightarrow> string" where
  "Base path =
     (if path = '''' then ''.''
      else
        (let path = rev (dropWhile (\<lambda>c. c = CHR ''/'') (rev path));
             path = rev (takeWhile (\<lambda>c. c \<noteq> CHR ''/'') (rev path))
         in if path = '''' then ''/'' else path))"

definition IsAbs :: "string \<Rightarrow> bool" where
  "IsAbs path = hasPrefix path ''/''"

text \<open>
  What config.go reads from the operating system. \<open>Stat\<close> and \<open>Walk\<close> answer with
  \<^verbatim>\<open>os.FileInfo\<close> values, of which the code reads \<open>IsDir\<close> and the modification time;
  \<open>ModTime\<close> holds the time as \<^verbatim>\<open>fmt.Sprintf("%v", info.ModTime())\<close> prints it.
  \<open>Walk root\<close> is the sequence of calls that \<^verbatim>\<open>filepath.Walk\<close> makes to its callback
  when the callback always returns nil: the path, the info (\<open>None\<close> for nil) and whether
  an error was passed. \<open>LookPath\<close> tells whether \<^verbatim>\<open>exec.LookPath\<close> finds the program,
  \<open>CurrentUserHome\<close> is the home directory of \<^verbatim>\<open>user.Current()\<close> (\<open>None\<close> when that
  returns nil), \<open>Getwd\<close> the working directory (\<open>None\<close> when \<^verbatim>\<open>os.Getwd\<close> fails).
\<close>

record FileInfo =
  IsDir :: bool
  ModTime :: string

record OS =
  LookPath :: "string \<Rightarrow> bool"
  CurrentUserHome :: "string option"
  Stat :: "string \<Rightarrow> FileInfo option"
  Getwd :: "string option"
  Walk :: "string \<Rightarrow> (string \<times> FileInfo option \<times> bool) list"

text \<open>
  \<^verbatim>\<open>aws.Credentials\<close> and \<^verbatim>\<open>aws.Config\<close> of the AWS SDK, with the fields config.go
  reads. \<open>Expires\<close> is a point in time and a \<^verbatim>\<open>time.Duration\<close> a number of
  nanoseconds, both integers. \<open>Retrieve\<close> is the outcome of
  \<^verbatim>\<open>config.Credentials.Retrieve\<close>: the credentials, or the message of the error.
\<close>

record Credentials =
  AccessKeyID :: string
  SecretAccessKey :: string
  SessionToken :: string
  CanExpire :: bool
  Expires :: int

record aws_Config =
  Region :: string
  Retrieve :: "string + Credentials"

definition Second :: int where
  "Second = 1000000000"

definition Hour :: int where
  "Hour = 3600 * Second"

text \<open>
  The package-level variables \<^verbatim>\<open>cachedAWSConfigExistCheck\<close> and \<^verbatim>\<open>cachedAwsConfig\<close>, the
  environment variables of the process, and the requests sent to the AWS SDK's
  \<^verbatim>\<open>LoadDefaultConfig\<close> so far (oldest first): the profile, and the duration that the
  assume-role options are given (\<open>None\<close> when the option is left alone).
\<close>

record Process =
  cachedAWSConfigExistCheck :: "bool option"
  cachedAwsConfig :: "aws_Config option"
  environ :: "string \<rightharpoonup> string"
  loadRequests :: "(string \<times> int option) list"

definition Getenv :: "(string \<rightharpoonup> string) \<Rightarrow> string \<Rightarrow> string" where
  "Getenv env key = (case env key of None \<Rightarrow> '''' | Some v \<Rightarrow> v)"

definition Setenv :: "string \<Rightarrow> string \<Rightarrow> Process \<Rightarrow> Process" where
  "Setenv key v proc = proc\<lparr>environ := (environ proc)(key \<mapsto> v)\<rparr>"

definition Unsetenv :: "string \<Rightarrow> Process \<Rightarrow> Process" where
  "Unsetenv key proc = proc\<lparr>environ := (environ proc)(key := None)\<rparr>"

section \<open>awsConfigExist\<close>

text \<open>
  \<^verbatim>\<open>awsConfigExist\<close> (config.go 636-674). A cached answer is returned as it is.
  Otherwise the deferred function stores the result, whichever \<^verbatim>\<open>return\<close> produced it.
\<close>

definition awsConfigExist_check :: "TGFApplication \<Rightarrow> OS \<Rightarrow> (string \<rightharpoonup> string) \<Rightarrow> bool" where
  "awsConfigExist_check app os env =
     (if \<not> UseAWS app then False
      else
        (let environmentVariablesExist =
               (Getenv env ''AWS_PROFILE'' @ Getenv env ''AWS_ACCESS_KEY_ID'' @
                Getenv env ''AWS_CONFIG_FILE'' @ Getenv env ''TGF_USE_AWS_CONFIG'' \<noteq> '''')
         in if environmentVariablesExist then True
            else
              (let awsCliIsInstalled = LookPath os ''aws''
               in if awsCliIsInstalled then True
                  else
                    (case CurrentUserHome os of
                       None \<Rightarrow> False
                     | Some homeDir \<Rightarrow>
                         (case Stat os (Join [homeDir, ''.aws'']) of
                            None \<Rightarrow> False
                          | Some awsFolder \<Rightarrow> IsDir awsFolder)))))"

definition awsConfigExist :: "TGFApplication \<Rightarrow> OS \<Rightarrow> Process \<Rightarrow> bool \<times> Process" where
  "awsConfigExist app os proc =
     (case cachedAWSConfigExistCheck proc of
        Some cached \<Rightarrow> (cached, proc)
      | None \<Rightarrow>
          (let result = awsConfigExist_check app os (environ proc)
           in (result, proc\<lparr>cachedAWSConfigExistCheck := Some result\<rparr>)))"

text \<open>
  A run of calls within one process. Before each call the application flags, the
  operating system's answers and the environment variables may all have changed: each
  call comes with its own.
\<close>

fun awsConfigExist_calls ::
  "Process \<Rightarrow> (TGFApplication \<times> OS \<times> (string \<rightharpoonup> string)) list \<Rightarrow> bool list" where
  "awsConfigExist_calls proc [] = []"
| "awsConfigExist_calls proc ((app, os, env) # calls) =
     (let (result, proc') = awsConfigExist app os (proc\<lparr>environ := env\<rparr>)
      in result # awsConfigExist_calls proc' calls)"

text \<open>
  The gate in the words of the specification: cloud use is not disabled, and an
  override or identity environment variable is set (has a non-empty value), or the
  cloud CLI is on the search path, or the credentials directory exists under the home
  directory of the current user.
\<close>

definition cloudContextGate :: "TGFApplication \<Rightarrow> OS \<Rightarrow> (string \<rightharpoonup> string) \<Rightarrow> bool" where
  "cloudContextGate app os env =
     (UseAWS app \<and>
      (list_ex (\<lambda>key. Getenv env key \<noteq> '''')
         [''AWS_PROFILE'', ''AWS_ACCESS_KEY_ID'', ''AWS_CONFIG_FILE'', ''TGF_USE_AWS_CONFIG'']
       \<or> LookPath os ''aws''
       \<or> (\<exists>homeDir awsFolder. CurrentUserHome os = Some homeDir
            \<and> Stat os (Join [homeDir, ''.aws'']) = Some awsFolder \<and> IsDir awsFolder)))"

section \<open>The AWS session: getAwsConfig, guessAwsMaxAssumeRoleDuration, InitAWS\<close>

text \<open>
  The AWS services as config.go uses them. \<open>LoadDefaultConfig\<close> answers the last
  request of the list it is given, knowing the earlier ones, so that two equal requests
  may be answered differently. \<open>GetCallerIdentity\<close> returns the ARN of the caller,
  \<open>GetRole\<close> the maximum session duration of a role in seconds, \<open>Until\<close> is
  \<^verbatim>\<open>time.Until\<close>. An error is its message.
\<close>

record AWS =
  LoadDefaultConfig :: "(string \<times> int option) list \<Rightarrow> string + aws_Config"
  GetCallerIdentity :: "aws_Config \<Rightarrow> string + string"
  GetRole :: "aws_Config \<Rightarrow> string \<Rightarrow> string + int"
  Until :: "int \<Rightarrow> int"

text \<open>
  \<^verbatim>\<open>loadDefaultConfig\<close> (config.go 165-194): the profile of the application, and the
  duration only when \<^verbatim>\<open>assumeRoleDuration > 0\<close>.
\<close>

definition loadDefaultConfig ::
  "TGFApplication \<Rightarrow> AWS \<Rightarrow> int \<Rightarrow> Process \<Rightarrow> (string + aws_Config) \<times> Process" where
  "loadDefaultConfig app aws assumeRoleDuration proc =
     (let request = (AwsProfile app,
                     if assumeRoleDuration > 0 then Some assumeRoleDuration else None);
          proc = proc\<lparr>loadRequests := loadRequests proc @ [request]\<rparr>
      in (LoadDefaultConfig aws (loadRequests proc), proc))"

text \<open>
  The regular expression \<^verbatim>\<open>.*:assumed-role/(.*)/.*\<close> of
  \<^verbatim>\<open>guessAwsMaxAssumeRoleDuration\<close>. A dot does not match a newline, so a match lies
  within one line, and the leftmost match is in the first line that has one. Both
  \<^verbatim>\<open>.*\<close> before the last slash are greedy: the group starts after the last
  \<^verbatim>\<open>:assumed-role/\<close> that still has a slash after it, and ends before the last slash of
  the line. \<open>roleRegex_FindStringSubmatch\<close> returns the matched line and the group, or
  the empty list.
\<close>

definition upToLastSlash :: "string \<Rightarrow> string" where
  "upToLastSlash s = rev (tl (dropWhile (\<lambda>c. c \<noteq> CHR ''/'') (rev s)))"

fun roleInLine :: "string \<Rightarrow> string option" where
  "roleInLine [] = None"
| "roleInLine (c # cs) =
     (case roleInLine cs of
        Some role \<Rightarrow> Some role
      | None \<Rightarrow>
          if hasPrefix (c # cs) '':assumed-role/'' \<and> CHR ''/'' \<in> set (drop 14 (c # cs))
          then Some (upToLastSlash (drop 14 (c # cs)))
          else None)"

fun roleInLines :: "string list \<Rightarrow> string list" where
  "roleInLines [] = []"
| "roleInLines (l # ls) =
     (case roleInLine l of Some role \<Rightarrow> [l, role] | None \<Rightarrow> roleInLines ls)"

definition roleRegex_FindStringSubmatch :: "string \<Rightarrow> string list" where
  "roleRegex_FindStringSubmatch s = roleInLines (splitChar (CHR 0x0A) s)"

text \<open>\<^verbatim>\<open>guessAwsMaxAssumeRoleDuration\<close> (config.go 243-275).\<close>

definition guessAwsMaxAssumeRoleDuration :: "AWS \<Rightarrow> aws_Config \<Rightarrow> int" where
  "guessAwsMaxAssumeRoleDuration aws awsConfig =
     (let fallback = 1 * Hour
      in case GetCallerIdentity aws awsConfig of
           Inl err \<Rightarrow> fallback
         | Inr arn \<Rightarrow>
             (case roleRegex_FindStringSubmatch arn of
                [] \<Rightarrow> fallback
              | [m] \<Rightarrow> fallback
              | m # roleName # ms \<Rightarrow>
                  (case GetRole aws awsConfig roleName of
                     Inl err \<Rightarrow> fallback
                   | Inr maxSessionDuration \<Rightarrow> maxSessionDuration * Second)))"

text \<open>
  \<^verbatim>\<open>getAwsConfig\<close> (config.go 196-241). The cached configuration is returned when
  there is one. Otherwise the configuration is loaded and its credentials retrieved;
  either failure is returned. When the credentials can expire within less than an hour,
  \<open>newDuration\<close> is computed (it is printed in the two warnings), the configuration is
  loaded again with \<^verbatim>\<open>tgfConfig.loadDefaultConfig(assumeRoleDuration)\<close>, and the first
  configuration is kept if that fails. The result is cached.
\<close>

definition getAwsConfig ::
  "TGFApplication \<Rightarrow> AWS \<Rightarrow> int \<Rightarrow> Process \<Rightarrow> (string + aws_Config) \<times> Process" where
  "getAwsConfig app aws assumeRoleDuration proc =
     (case cachedAwsConfig proc of
        Some cached \<Rightarrow> (Inr cached, proc)
      | None \<Rightarrow>
          (case loadDefaultConfig app aws assumeRoleDuration proc of
             (Inl err, proc) \<Rightarrow> (Inl err, proc)
           | (Inr config, proc) \<Rightarrow>
               (case Retrieve config of
                  Inl err \<Rightarrow> (Inl err, proc)
                | Inr creds \<Rightarrow>
                    (let expiresIn = Until aws (Expires creds);
                         (config, proc) =
                           (if CanExpire creds \<and> expiresIn < 1 * Hour
                            then
                              (let newDuration = guessAwsMaxAssumeRoleDuration aws config;
                                   shortConfig = config
                               in case loadDefaultConfig app aws assumeRoleDuration proc of
                                    (Inl err, proc) \<Rightarrow> (shortConfig, proc)
                                  | (Inr config, proc) \<Rightarrow> (config, proc))
                            else (config, proc))
                     in (Inr config, proc\<lparr>cachedAwsConfig := Some config\<rparr>)))))"

text \<open>
  \<^verbatim>\<open>InitAWS\<close> (config.go 289-317). The result is the error (\<open>None\<close> for nil), the
  process and the configuration. The warning of lines 291-293 is only logged. The four
  keys of the map literal are distinct, so the order in which the loop visits them does
  not matter; they are taken in the order of the source.
\<close>

definition exportCredential ::
  "TGFApplication \<Rightarrow> Process \<times> TGFConfig \<Rightarrow> string \<times> string \<Rightarrow> Process \<times> TGFConfig" where
  "exportCredential app pc kv =
     (case (pc, kv) of
        ((proc, config), (key, v)) \<Rightarrow>
          (Setenv key v proc,
           if \<not> ConfigDump app
           then config\<lparr>Environment := (Environment config)(key \<mapsto> v)\<rparr>
           else config))"

definition InitAWS ::
  "TGFApplication \<Rightarrow> AWS \<Rightarrow> Process \<Rightarrow> TGFConfig \<Rightarrow> string option \<times> Process \<times> TGFConfig" where
  "InitAWS app aws proc config =
     (case getAwsConfig app aws 0 proc of
        (Inl err, proc) \<Rightarrow> (Some err, proc, config)
      | (Inr awsConfig, proc) \<Rightarrow>
          (case Retrieve awsConfig of
             Inl err \<Rightarrow> (Some err, proc, config)
           | Inr creds \<Rightarrow>
               (let proc = Unsetenv ''AWS_PROFILE'' proc;
                    proc = Unsetenv ''AWS_DEFAULT_PROFILE'' proc;
                    (proc, config) =
                      foldl (exportCredential app) (proc, config)
                        [(''AWS_ACCESS_KEY_ID'', AccessKeyID creds),
                         (''AWS_SECRET_ACCESS_KEY'', SecretAccessKey creds),
                         (''AWS_SESSION_TOKEN'', SessionToken creds),
                         (''AWS_REGION'', Region awsConfig)]
                in (None, proc, config))))"

section \<open>The build tag: Dir, hash, GetTag\<close>

text \<open>
  \<^verbatim>\<open>filepath.Abs\<close>: a relative path is joined to the working directory; \<open>None\<close> when
  the working directory cannot be read, where \<^verbatim>\<open>must\<close> panics.
\<close>

definition Abs :: "OS \<Rightarrow> string \<Rightarrow> string option" where
  "Abs os path =
     (if IsAbs path then Some (Clean path)
      else (case Getwd os of None \<Rightarrow> None | Some wd \<Rightarrow> Some (Join [wd, path])))"

text \<open>\<^verbatim>\<open>TGFConfigBuild.Dir\<close> (config.go 117-126).\<close>

definition TGFConfigBuild_Dir :: "OS \<Rightarrow> TGFConfigBuild \<Rightarrow> string option" where
  "TGFConfigBuild_Dir os cb =
     (if Folder cb = '''' then Some (Dir (source cb))
      else if IsAbs (Folder cb) then Some (Folder cb)
      else Abs os (Join [Dir (source cb), Folder cb]))"

text \<open>
  \<^verbatim>\<open>TGFConfigBuild.hash\<close> (config.go 99-115). \<open>h\<close> is what has been written to the MD5
  state so far. The callback of \<^verbatim>\<open>filepath.Walk\<close> skips an entry without info, a
  directory and an entry reported with an error, and writes the modification time of
  any other entry whose path does not contain \<open>dockerfilePattern\<close> (a constant
  declared outside config.go, here a parameter). \<open>md5hex\<close>, the other parameter, maps
  the bytes written to the digest as \<^verbatim>\<open>fmt.Sprintf("%x", h.Sum(nil))\<close> prints it.
\<close>

definition hashWalkFn :: "string \<Rightarrow> string \<Rightarrow> string \<times> FileInfo option \<times> bool \<Rightarrow> string" where
  "hashWalkFn dockerfilePattern h entry =
     (case entry of
        (path, info, err) \<Rightarrow>
          (case info of
             None \<Rightarrow> h
           | Some i \<Rightarrow>
               if IsDir i \<or> err then h
               else if \<not> contains path dockerfilePattern then h @ ModTime i
               else h))"

definition hashInput :: "string \<Rightarrow> OS \<Rightarrow> TGFConfigBuild \<Rightarrow> string option" where
  "hashInput dockerfilePattern os cb =
     (let h = Base (Dir (source cb));
          h = h @ Instructions cb
      in if Folder cb \<noteq> ''''
         then (case TGFConfigBuild_Dir os cb of
                 None \<Rightarrow> None
               | Some dir \<Rightarrow> Some (foldl (hashWalkFn dockerfilePattern) h (Walk os dir)))
         else Some h)"

definition hash :: "(string \<Rightarrow> string) \<Rightarrow> string \<Rightarrow> OS \<Rightarrow> TGFConfigBuild \<Rightarrow> string option" where
  "hash md5hex dockerfilePattern os cb = map_option md5hex (hashInput dockerfilePattern os cb)"

text \<open>
  \<^verbatim>\<open>GetTag\<close> (config.go 128-136). The regular expression \<^verbatim>\<open>[^a-zA-Z0-9\._-]\<close>
  matches every character outside the class; a character beyond ASCII is made of bytes
  that are all outside the class, so replacing the matches by the empty string keeps
  exactly the bytes of the class.
\<close>

definition tagChars :: "char set" where
  "tagChars = set ''abcdefghijklmnopqrstuvwxyzABCDEFGHIJKLMNOPQRSTUVWXYZ0123456789._-''"

definition tagRegex_ReplaceAllString :: "string \<Rightarrow> string" where
  "tagRegex_ReplaceAllString tag = filter (\<lambda>c. c \<in> tagChars) tag"

definition GetTag :: "(string \<Rightarrow> string) \<Rightarrow> string \<Rightarrow> OS \<Rightarrow> TGFConfigBuild \<Rightarrow> string option" where
  "GetTag md5hex dockerfilePattern os cb =
     (let tag = Tag cb
      in if tag = ''''
         then (case hash md5hex dockerfilePattern os cb of
                 None \<Rightarrow> None
               | Some digest \<Rightarrow>
                   Some (tagRegex_ReplaceAllString (Base (Dir (source cb)) @ ''-'' @ digest)))
         else Some (tagRegex_ReplaceAllString tag))"

text \<open>
  What one entry of the walk adds to the fingerprint: the modification time of a file
  (an entry that is not a directory and was visited without error) whose path does not
  contain the build-descriptor pattern, nothing otherwise.
\<close>

definition fileStamp :: "string \<Rightarrow> string \<times> FileInfo option \<times> bool \<Rightarrow> string" where
  "fileStamp dockerfilePattern entry =
     (case entry of
        (path, Some i, err) \<Rightarrow>
          if \<not> IsDir i \<and> \<not> err \<and> \<not> contains path dockerfilePattern then ModTime i else ''''
      | (path, None, err) \<Rightarrow> '''')"

text \<open>
  The tag in the words of the specification, to compare with the code: the fingerprint
  and the prefix are built on the base name of the build context folder (the folder
  that \<open>TGFConfigBuild_Dir\<close> returns and that is walked).
\<close>

definition contextFolderTag ::
  "(string \<Rightarrow> string) \<Rightarrow> string \<Rightarrow> OS \<Rightarrow> TGFConfigBuild \<Rightarrow> string option" where
  "contextFolderTag md5hex dockerfilePattern os cb =
     (case TGFConfigBuild_Dir os cb of
        None \<Rightarrow> None
      | Some dir \<Rightarrow>
          Some (tagRegex_ReplaceAllString
                  (Base dir @ ''-'' @
                   md5hex (Base dir @ Instructions cb @
                           (if Folder cb \<noteq> ''''
                            then concat (map (fileStamp dockerfilePattern) (Walk os dir))
                            else '''')))))"

section \<open>parseAliases\<close>

text \<open>
  The methods of the string types of the \<^verbatim>\<open>collections\<close> library that
  \<^verbatim>\<open>parseAliases\<close> calls, as parameters: \<open>Protect\<close> replaces the quoted substrings by
  tokens and returns them, \<open>Fields\<close> splits into words, \<open>RestoreProtected\<close> puts the
  quoted substrings back, \<open>ReplaceN\<close> and \<open>Trim\<close> are as in Go's \<^verbatim>\<open>strings\<close>.
\<close>

record StringLib =
  Protect :: "string \<Rightarrow> string \<times> string list"
  Fields :: "string \<Rightarrow> string list"
  RestoreProtected :: "string \<Rightarrow> string list \<Rightarrow> string"
  ReplaceN :: "string \<Rightarrow> string \<Rightarrow> string \<Rightarrow> int \<Rightarrow> string"
  Trim :: "string \<Rightarrow> string \<Rightarrow> string"

text \<open>
  \<^verbatim>\<open>config.Aliases[args[0]]\<close>: the empty string when the key is absent.
\<close>

definition aliasReplacement :: "(string \<rightharpoonup> string) \<Rightarrow> string \<Rightarrow> string" where
  "aliasReplacement aliases key = (case aliases key of None \<Rightarrow> '''' | Some v \<Rightarrow> v)"

text \<open>
  The words of a replacement (config.go 521-528): the quoted substrings are protected,
  the string is split, and only when something was protected each word is restored,
  has its first \<^verbatim>\<open>="\<close> replaced by \<^verbatim>\<open>=\<close> and its surrounding double quotes trimmed.
\<close>

definition aliasFields :: "StringLib \<Rightarrow> string \<Rightarrow> string list" where
  "aliasFields lib replace =
     (case Protect lib replace of
        (replace, quoted) \<Rightarrow>
          (let result = Fields lib replace
           in if length quoted > 0
              then map (\<lambda>field. Trim lib (ReplaceN lib (RestoreProtected lib field quoted)
                                             [CHR ''='', CHR 0x22] ''='' 1) [CHR 0x22]) result
              else result))"

text \<open>
  \<^verbatim>\<open>parseAliases\<close> (config.go 517-533). The recursion has no bound: the result is
  \<open>None\<close> when the aliases are expanded for ever.
\<close>

partial_function (option) parseAliases ::
  "StringLib \<Rightarrow> (string \<rightharpoonup> string) \<Rightarrow> string list \<Rightarrow> string list option" where
  "parseAliases lib aliases args =
     (case args of
        [] \<Rightarrow> Some args
      | arg0 # rest \<Rightarrow>
          (let replace = aliasReplacement aliases arg0
           in if replace \<noteq> ''''
              then Option.bind (parseAliases lib aliases (aliasFields lib replace))
                     (\<lambda>expanded. Some (expanded @ rest))
              else Some args))"

section \<open>GetImageName\<close>

text \<open>
  \<^verbatim>\<open>GetImageName\<close> (config.go 499-515): the suffix starts empty, receives the image
  version when the pointer is not nil, then the separator (only if both the suffix so
  far and the tag are non-empty) and the tag when that pointer is not nil. The colon
  form is returned when \<^verbatim>\<open>len(suffix) > 1\<close>.
\<close>

definition GetImageName :: "TGFConfig \<Rightarrow> string" where
  "GetImageName config =
     (let suffix = '''';
          suffix = (case ImageVersion config of None \<Rightarrow> suffix | Some v \<Rightarrow> suffix @ v);
          suffix = (case ImageTag config of
                      None \<Rightarrow> suffix
                    | Some t \<Rightarrow> (if suffix \<noteq> '''' \<and> t \<noteq> '''' then suffix @ tagSeparator else suffix) @ t)
      in if length suffix > 1 then Image config @ '':'' @ suffix else Image config)"

text \<open>
  The composition rule in the words of the specification, to compare with the code:
  \<open>repository[:version[-tag]]\<close>, version and tag joined by a hyphen only when both are
  non-empty, the suffix attached with a colon only when it has at least two characters.
  An absent version or tag counts as the empty string.
\<close>

definition image_name_rule :: "string \<Rightarrow> string \<Rightarrow> string \<Rightarrow> string" where
  "image_name_rule repository version tag =
     (let suffix = (if version \<noteq> '''' \<and> tag \<noteq> '''' then version @ ''-'' @ tag else version @ tag)
      in if 2 \<le> length suffix then repository @ '':'' @ suffix else repository)"

definition str_or_empty :: "string option \<Rightarrow> string" where
  "str_or_empty p = (case p of None \<Rightarrow> '''' | Some s \<Rightarrow> s)"

section \<open>Version validation: CheckVersionRange, validate, ValidateVersion\<close>

text \<open>
  The two functions of the semantic-version library (\<^verbatim>\<open>github.com/blang/semver\<close>) that
  config.go calls, as parameters: \<open>Make\<close> parses a version, \<open>ParseRange\<close> parses a
  range into a predicate on versions; both answer with the message of the error
  otherwise. \<open>'v\<close> is the library's type of versions.
\<close>

record 'v SemverLib =
  Make :: "string \<Rightarrow> string + 'v"
  ParseRange :: "string \<Rightarrow> string + ('v \<Rightarrow> bool)"

text \<open>\<^verbatim>\<open>CheckVersionRange\<close> (config.go 709-726).\<close>

definition CheckVersionRange :: "'v SemverLib \<Rightarrow> string \<Rightarrow> string \<Rightarrow> string + bool" where
  "CheckVersionRange lib version compare =
     (let version = (if countChar CHR ''.'' version = 1 then version @ ''.9999'' else version)
      in case Make lib version of
           Inl err \<Rightarrow> Inl err
         | Inr v \<Rightarrow>
             (case ParseRange lib compare of
                Inl err \<Rightarrow> Inl err
              | Inr inRange \<Rightarrow> Inr (inRange v)))"

text \<open>
  The errors that \<^verbatim>\<open>validate\<close> returns: a \<^verbatim>\<open>ConfigWarning\<close>, a
  \<^verbatim>\<open>VersionMistmatchError\<close>, or any other error (built by \<^verbatim>\<open>fmt.Errorf\<close>).
\<close>

datatype finding = ConfigWarning string | VersionMistmatchError string | Error string

text \<open>
  \<^verbatim>\<open>reVersion.MatchString\<close>: the expression \<^verbatim>\<open>\d+\.\d+(?:\.\d+){0,1}\<close> is not
  anchored, so it matches as soon as a digit, a dot and a digit follow each other
  somewhere in the string.
\<close>

definition isDigit :: "char \<Rightarrow> bool" where
  "isDigit c = (c \<in> set ''0123456789'')"

fun reVersion_MatchString :: "string \<Rightarrow> bool" where
  "reVersion_MatchString (a # b # c # rest) =
     ((isDigit a \<and> b = CHR ''.'' \<and> isDigit c) \<or> reVersion_MatchString (b # c # rest))"
| "reVersion_MatchString _ = False"

text \<open>
  \<^verbatim>\<open>regexp.MustCompile(`.*:\d+/`).ReplaceAllString(config.Image, "")\<close>: a match lies within
  one line and, the star being greedy, runs from the start of the line to the end of the
  last colon-digits-slash of the line; it is removed.
\<close>

definition afterPort :: "string \<Rightarrow> string option" where
  "afterPort s =
     (let digits = takeWhile isDigit s; rest = dropWhile isDigit s
      in if digits \<noteq> '''' \<and> hasPrefix rest ''/'' then Some (tl rest) else None)"

fun afterLastPort :: "string \<Rightarrow> string option" where
  "afterLastPort [] = None"
| "afterLastPort (c # cs) =
     (case afterLastPort cs of
        Some rest \<Rightarrow> Some rest
      | None \<Rightarrow> if c = CHR '':'' then afterPort cs else None)"

definition removePort :: "string \<Rightarrow> string" where
  "removePort s =
     joinWith [CHR 0x0A]
       (map (\<lambda>line. case afterLastPort line of None \<Rightarrow> line | Some rest \<Rightarrow> rest)
            (splitChar (CHR 0x0A) s))"

definition containsAny :: "string \<Rightarrow> string \<Rightarrow> bool" where
  "containsAny s chars = list_ex (\<lambda>c. c \<in> set chars) s"

text \<open>
  \<^verbatim>\<open>validate\<close> (config.go 424-469), in three parts: the rules before the required
  range (lines 425-448), the required range with its two early returns (450-458), and
  the recommended image version (460-466). \<open>version\<close> is the package-level variable
  with the version of the tool and \<open>locallyBuilt\<close> the constant it is compared with,
  both declared outside config.go.
\<close>

definition validate_head :: "'v SemverLib \<Rightarrow> string \<Rightarrow> string \<Rightarrow> TGFConfig \<Rightarrow> finding list" where
  "validate_head lib version locallyBuilt config =
     (let errors = [];
          errors =
            (if contains (Image config) '':''
             then (let portRemoved = removePort (Image config)
                   in if contains portRemoved '':''
                      then errors @ [ConfigWarning (''Image should not contain the version: '' @ Image config)]
                      else errors)
             else errors);
          errors =
            (case ImageVersion config of
               None \<Rightarrow> errors
             | Some imageVersion \<Rightarrow>
                 if containsAny imageVersion '':-''
                 then errors @ [ConfigWarning
                        (''Image version parameter should not contain the image name nor the specialized version: ''
                         @ imageVersion)]
                 else errors);
          errors =
            (case ImageTag config of
               None \<Rightarrow> errors
             | Some imageTag \<Rightarrow>
                 if containsAny imageTag '':''
                 then errors @ [ConfigWarning
                        (''Image tag parameter should not contain the image name: '' @ imageTag)]
                 else errors);
          errors =
            (if RecommendedTGFVersion config \<noteq> '''' \<and> version \<noteq> locallyBuilt
             then (case CheckVersionRange lib version (RecommendedTGFVersion config) of
                     Inl err \<Rightarrow>
                       errors @ [Error (''unable to check recommended tgf version '' @ version @
                                        '' vs '' @ RecommendedTGFVersion config @ '': '' @ err)]
                   | Inr valid \<Rightarrow>
                       if \<not> valid
                       then errors @ [ConfigWarning
                              (''TGF v'' @ version @ '' does not meet the recommended version range ''
                               @ RecommendedTGFVersion config)]
                       else errors)
             else errors)
      in errors)"

definition validate_recommended :: "'v SemverLib \<Rightarrow> TGFConfig \<Rightarrow> finding list \<Rightarrow> finding list" where
  "validate_recommended lib config errors =
     (case ImageVersion config of
        None \<Rightarrow> errors
      | Some imageVersion \<Rightarrow>
          if RecommendedImageVersion config \<noteq> '''' \<and> imageVersion \<noteq> ''''
             \<and> reVersion_MatchString imageVersion
          then (case CheckVersionRange lib imageVersion (RecommendedImageVersion config) of
                  Inl err \<Rightarrow>
                    errors @ [Error (''unable to check recommended image version '' @ imageVersion @
                                     '' vs '' @ RecommendedImageVersion config @ '': '' @ err)]
                | Inr valid \<Rightarrow>
                    if \<not> valid
                    then errors @ [ConfigWarning
                           (''Image '' @ GetImageName config @
                            '' does not meet the recommended version range '' @
                            RecommendedImageVersion config)]
                    else errors)
          else errors)"

definition validate :: "'v SemverLib \<Rightarrow> string \<Rightarrow> string \<Rightarrow> TGFConfig \<Rightarrow> finding list" where
  "validate lib version locallyBuilt config =
     (let errors = validate_head lib version locallyBuilt config
      in case ImageVersion config of
           None \<Rightarrow> validate_recommended lib config errors
         | Some imageVersion \<Rightarrow>
             if RequiredVersionRange config \<noteq> '''' \<and> imageVersion \<noteq> ''''
                \<and> reVersion_MatchString imageVersion
             then (case CheckVersionRange lib imageVersion (RequiredVersionRange config) of
                     Inl err \<Rightarrow>
                       errors @ [Error (''unable to check recommended image version '' @ imageVersion @
                                        '' vs '' @ RequiredVersionRange config @ '': '' @ err)]
                   | Inr valid \<Rightarrow>
                       if \<not> valid
                       then errors @ [VersionMistmatchError
                              (''Image '' @ GetImageName config @
                               '' does not meet the required version range '' @
                               RequiredVersionRange config)]
                       else validate_recommended lib config errors)
             else validate_recommended lib config errors)"

text \<open>
  \<^verbatim>\<open>ValidateVersion\<close> (config.go 471-490): the loop over the errors of \<^verbatim>\<open>validate\<close>,
  then the function itself.
\<close>

fun ValidateVersion_range :: "string \<Rightarrow> finding list \<Rightarrow> bool" where
  "ValidateVersion_range version [] = True"
| "ValidateVersion_range version (ConfigWarning w # errs) = ValidateVersion_range version errs"
| "ValidateVersion_range version (VersionMistmatchError m # errs) =
     (if version = ''-'' then False else ValidateVersion_range version errs)"
| "ValidateVersion_range version (Error e # errs) = False"

definition ValidateVersion ::
  "'v SemverLib \<Rightarrow> string \<Rightarrow> string \<Rightarrow> TGFApplication \<Rightarrow> TGFConfig \<Rightarrow> bool" where
  "ValidateVersion lib toolVersion locallyBuilt app config =
     (let version = CliImageVersion app
      in ValidateVersion_range version (validate lib toolVersion locallyBuilt config))"

text \<open>
  The two errors that the required-range rule appends, and the lists of findings
  without any hard error.
\<close>

definition noHardError :: "finding list \<Rightarrow> bool" where
  "noHardError errs = list_all (\<lambda>f. case f of Error e \<Rightarrow> False | _ \<Rightarrow> True) errs"

definition requiredMismatch :: "TGFConfig \<Rightarrow> finding" where
  "requiredMismatch config =
     VersionMistmatchError (''Image '' @ GetImageName config @
       '' does not meet the required version range '' @ RequiredVersionRange config)"

definition requiredError :: "string \<Rightarrow> TGFConfig \<Rightarrow> string \<Rightarrow> finding" where
  "requiredError imageVersion config err =
     Error (''unable to check recommended image version '' @ imageVersion @ '' vs '' @
            RequiredVersionRange config @ '': '' @ err)"

section \<open>setDefaultValues: the lists built from all layers\<close>

text \<open>
  The local struct \<^verbatim>\<open>configData\<close> of \<^verbatim>\<open>setDefaultValues\<close>: the name of a layer, its
  raw text, and the configuration that \<^verbatim>\<open>collections.ConvertData\<close> parsed from the raw
  text alone (nil, here \<open>None\<close>, when nothing was produced). The slice \<^verbatim>\<open>configsData\<close>
  holds the layers in the order they were found: remote files, the parameter store, then
  the files from the root folder down to the working directory.
\<close>

record configData =
  Name :: string
  Raw :: string
  Config :: "TGFConfig option"

text \<open>
  One iteration of the loop of config.go 393-413. A nil \<^verbatim>\<open>Config\<close> is logged and
  skipped. A build entry is put in front of the list
  (\<^verbatim>\<open>append([]TGFConfigBuild{{...}}, config.imageBuildConfigs...)\<close>); the run-before
  and run-after commands are appended at the end.
\<close>

definition collectLayer :: "TGFConfig \<Rightarrow> configData \<Rightarrow> TGFConfig" where
  "collectLayer config cd =
     (case Config cd of
        None \<Rightarrow> config
      | Some c \<Rightarrow>
          (let config =
                 (if ImageBuild c \<noteq> ''''
                  then config\<lparr>imageBuildConfigs :=
                         \<lparr>Instructions = ImageBuild c, Folder = ImageBuildFolder c,
                          Tag = ImageBuildTag c, source = Name cd\<rparr> # imageBuildConfigs config\<rparr>
                  else config);
               config =
                 (if RunBefore c \<noteq> ''''
                  then config\<lparr>runBeforeCommands := runBeforeCommands config @ [RunBefore c]\<rparr>
                  else config);
               config =
                 (if RunAfter c \<noteq> ''''
                  then config\<lparr>runAfterCommands := runAfterCommands config @ [RunAfter c]\<rparr>
                  else config)
           in config))"

fun collectLayers :: "TGFConfig \<Rightarrow> configData list \<Rightarrow> TGFConfig" where
  "collectLayers config [] = config"
| "collectLayers config (cd # configsData) = collectLayers (collectLayer config cd) configsData"

text \<open>
  The end of \<^verbatim>\<open>setDefaultValues\<close> (config.go 392-416): the loop over all layers, then
  the run-before list is reversed (\<^verbatim>\<open>collections.AsList(...).Reverse().Strings()\<close>).
\<close>

definition setDefaultValues_lists :: "TGFConfig \<Rightarrow> configData list \<Rightarrow> TGFConfig" where
  "setDefaultValues_lists config configsData =
     (let config = collectLayers config configsData
      in config\<lparr>runBeforeCommands := rev (runBeforeCommands config)\<rparr>)"

text \<open>What one layer contributes, read off its parsed configuration.\<close>

definition layerBuild :: "configData \<Rightarrow> TGFConfigBuild option" where
  "layerBuild cd =
     (case Config cd of
        None \<Rightarrow> None
      | Some c \<Rightarrow>
          if ImageBuild c \<noteq> ''''
          then Some \<lparr>Instructions = ImageBuild c, Folder = ImageBuildFolder c,
                     Tag = ImageBuildTag c, source = Name cd\<rparr>
          else None)"

definition layerRunBefore :: "configData \<Rightarrow> string" where
  "layerRunBefore cd = (case Config cd of None \<Rightarrow> '''' | Some c \<Rightarrow> RunBefore c)"

definition layerRunAfter :: "configData \<Rightarrow> string" where
  "layerRunAfter cd = (case Config cd of None \<Rightarrow> '''' | Some c \<Rightarrow> RunAfter c)"

text \<open>The zero value of the struct, and the struct literal of \<^verbatim>\<open>InitConfig\<close>.\<close>

definition zeroConfig :: TGFConfig where
  "zeroConfig =
     \<lparr>Image = '''', ImageVersion = None, ImageTag = None, ImageBuild = '''',
      ImageBuildFolder = '''', ImageBuildTag = '''', RecommendedImageVersion = '''',
      RequiredVersionRange = '''', RecommendedTGFVersion = '''', Environment = Map.empty,
      RunBefore = '''', RunAfter = '''', Aliases = Map.empty, runBeforeCommands = [],
      runAfterCommands = [], imageBuildConfigs = []\<rparr>"

definition InitConfig_literal :: TGFConfig where
  "InitConfig_literal = zeroConfig\<lparr>Image := ''coveo/tgf''\<rparr>"

definition layerOf :: "string \<Rightarrow> string \<Rightarrow> string \<Rightarrow> string \<Rightarrow> configData" where
  "layerOf name build before after =
     \<lparr>Name = name, Raw = '''',
      Config = Some (zeroConfig\<lparr>ImageBuild := build, RunBefore := before, RunAfter := after\<rparr>)\<rparr>"

section \<open>Concrete inputs\<close>

text \<open>The inputs at which the theorems below are evaluated.\<close>

definition noOS :: OS where
  "noOS = \<lparr>LookPath = (\<lambda>_. False), CurrentUserHome = None, Stat = (\<lambda>_. None), Getwd = None,
           Walk = (\<lambda>_. [])\<rparr>"

definition cliApp :: TGFApplication where
  "cliApp = \<lparr>AwsProfile = '''', ConfigDump = False, UseAWS = True, CliImageVersion = ''-'',
             Unmanaged = []\<rparr>"

definition freshProcess :: "Process" where
  "freshProcess = \<lparr>cachedAWSConfigExistCheck = None, cachedAwsConfig = None,
                   environ = Map.empty, loadRequests = []\<rparr>"

definition shortSession :: aws_Config where
  "shortSession =
     \<lparr>Region = ''us-east-1'',
      Retrieve = Inr \<lparr>AccessKeyID = ''AKIASHORT'', SecretAccessKey = ''secret'',
                      SessionToken = ''token'', CanExpire = True, Expires = 1800 * Second\<rparr>\<rparr>"

definition longSession :: "int \<Rightarrow> aws_Config" where
  "longSession d =
     \<lparr>Region = ''us-east-1'',
      Retrieve = Inr \<lparr>AccessKeyID = ''AKIALONG'', SecretAccessKey = ''secret'',
                      SessionToken = ''token'', CanExpire = True, Expires = d\<rparr>\<rparr>"

definition roleWorld :: AWS where
  "roleWorld =
     \<lparr>LoadDefaultConfig =
        (\<lambda>requests. case snd (last requests) of
                       None \<Rightarrow> Inr shortSession
                     | Some d \<Rightarrow> Inr (longSession d)),
      GetCallerIdentity = (\<lambda>_. Inr ''arn:aws:sts::123456789012:assumed-role/deployer/alice''),
      GetRole = (\<lambda>_ roleName. if roleName = ''deployer'' then Inr 14400 else Inl ''NoSuchEntity''),
      Until = (\<lambda>t. t)\<rparr>"

definition ctxOS :: OS where
  "ctxOS =
     noOS\<lparr>Getwd := Some ''/work'',
          Walk := (\<lambda>root.
             if root = ''/ctx/docker''
             then [(''/ctx/docker'', Some \<lparr>IsDir = True, ModTime = ''2024-04-30 09:00:00 +0000 UTC''\<rparr>, False),
                   (''/ctx/docker/TGFDockerfile'',
                      Some \<lparr>IsDir = False, ModTime = ''2024-05-02 11:00:00 +0000 UTC''\<rparr>, False),
                   (''/ctx/docker/run.sh'',
                      Some \<lparr>IsDir = False, ModTime = ''2024-05-01 10:00:00 +0000 UTC''\<rparr>, False)]
             else [(root, None, True)])\<rparr>"

definition ctxBuild :: TGFConfigBuild where
  "ctxBuild = \<lparr>Instructions = ''RUN x'', Folder = ''/ctx/docker'', Tag = '''',
               source = ''/proj/app/.tgf.config''\<rparr>"

definition sampleDigest :: "string \<Rightarrow> string" where
  "sampleDigest bytes = ''0123456789abcdef0123456789abcdef''"

text \<open>A string library for replacements without quotes, split at single spaces.\<close>

definition plainLib :: StringLib where
  "plainLib = \<lparr>Protect = (\<lambda>s. (s, [])),
               Fields = (\<lambda>s. filter (\<lambda>f. f \<noteq> '''') (splitChar CHR '' '' s)),
               RestoreProtected = (\<lambda>s quoted. s),
               ReplaceN = (\<lambda>s old new n. s),
               Trim = (\<lambda>s cutset. s)\<rparr>"

text \<open>
  A string library that knows double quotes: \<open>Protect\<close> replaces each of the first
  four double-quoted substrings by a one-character token and returns them in order,
  \<open>Fields\<close> splits at runs of ASCII white space, \<open>RestoreProtected\<close> puts the
  substrings back in place of their tokens, \<open>ReplaceN\<close> replaces the first occurrence
  (for the count 1, the only one the code asks for) and \<open>Trim\<close> removes the characters
  of the cutset at both ends. \<open>quotedReplacement\<close> is the replacement
  \<^verbatim>\<open>apply -var="a b"\<close>.
\<close>

definition isSpaceChar :: "char \<Rightarrow> bool" where
  "isSpaceChar c = (c \<in> set [CHR '' '', CHR 0x09, CHR 0x0A, CHR 0x0B, CHR 0x0C, CHR 0x0D])"

fun fieldsScan :: "string \<Rightarrow> string \<Rightarrow> string list" where
  "fieldsScan word [] = (if word = '''' then [] else [rev word])"
| "fieldsScan word (c # cs) =
     (if isSpaceChar c
      then (if word = '''' then fieldsScan '''' cs else rev word # fieldsScan '''' cs)
      else fieldsScan (c # word) cs)"

definition tokenChars :: string where
  "tokenChars = [CHR 0x01, CHR 0x02, CHR 0x03, CHR 0x04]"

fun protectScan :: "string option \<Rightarrow> string list \<Rightarrow> string \<Rightarrow> string \<times> string list" where
  "protectScan None quoted [] = ('''', quoted)"
| "protectScan (Some opened) quoted [] = (rev opened, quoted)"
| "protectScan None quoted (c # cs) =
     (if c = CHR 0x22 then protectScan (Some [c]) quoted cs
      else (case protectScan None quoted cs of (rest, quoted') \<Rightarrow> (c # rest, quoted')))"
| "protectScan (Some opened) quoted (c # cs) =
     (if c = CHR 0x22
      then (if length quoted < length tokenChars
            then (case protectScan None (quoted @ [rev (c # opened)]) cs of
                    (rest, quoted') \<Rightarrow> (tokenChars ! length quoted # rest, quoted'))
            else (case protectScan None quoted cs of
                    (rest, quoted') \<Rightarrow> (rev (c # opened) @ rest, quoted')))
      else protectScan (Some (c # opened)) quoted cs)"

definition restoreTokens :: "string \<Rightarrow> string list \<Rightarrow> string" where
  "restoreTokens s quoted =
     concat (map (\<lambda>c. case map_of (zip tokenChars quoted) c of None \<Rightarrow> [c] | Some q \<Rightarrow> q) s)"

fun replaceFirst :: "string \<Rightarrow> string \<Rightarrow> string \<Rightarrow> string" where
  "replaceFirst old new [] = (if old = '''' then new else '''')"
| "replaceFirst old new (c # cs) =
     (if hasPrefix (c # cs) old then new @ drop (length old) (c # cs)
      else c # replaceFirst old new cs)"

definition trimCutset :: "string \<Rightarrow> string \<Rightarrow> string" where
  "trimCutset s cutset =
     rev (dropWhile (\<lambda>c. c \<in> set cutset) (rev (dropWhile (\<lambda>c. c \<in> set cutset) s)))"

definition quotingLib :: StringLib where
  "quotingLib = \<lparr>Protect = protectScan None [],
                 Fields = fieldsScan '''',
                 RestoreProtected = restoreTokens,
                 ReplaceN = (\<lambda>s old new n. if n = 1 then replaceFirst old new s else s),
                 Trim = trimCutset\<rparr>"

definition quotedReplacement :: string where
  "quotedReplacement = ''apply -var='' @ [CHR 0x22] @ ''a b'' @ [CHR 0x22]"

text \<open>
  A small semantic-version library for the concrete inputs: versions are three decimal
  numbers without leading zeros, a range is a list of comparators separated by spaces
  that must all hold.
\<close>

definition digitValue :: "char \<Rightarrow> nat" where
  "digitValue c = length (takeWhile (\<lambda>d. d \<noteq> c) ''0123456789'')"

definition parseNumber :: "string \<Rightarrow> nat option" where
  "parseNumber s =
     (if s = '''' \<or> \<not> list_all isDigit s \<or> (length s > 1 \<and> hd s = CHR ''0'') then None
      else Some (foldl (\<lambda>n c. 10 * n + digitValue c) 0 s))"

definition plainMake :: "string \<Rightarrow> string + nat \<times> nat \<times> nat" where
  "plainMake s =
     (case splitChar CHR ''.'' s of
        [major, minor, patch] \<Rightarrow>
          (case (parseNumber major, parseNumber minor, parseNumber patch) of
             (Some x, Some y, Some z) \<Rightarrow> Inr (x, y, z)
           | _ \<Rightarrow> Inl ''Invalid character(s) found in version'')
      | _ \<Rightarrow> Inl ''No Major.Minor.Patch elements found'')"

definition versionLess :: "nat \<times> nat \<times> nat \<Rightarrow> nat \<times> nat \<times> nat \<Rightarrow> bool" where
  "versionLess v w =
     (case (v, w) of
        ((a, b, c), (x, y, z)) \<Rightarrow> a < x \<or> (a = x \<and> (b < y \<or> (b = y \<and> c < z))))"

definition plainComparator :: "string \<Rightarrow> string + (nat \<times> nat \<times> nat \<Rightarrow> bool)" where
  "plainComparator part =
     (let opStr = takeWhile (\<lambda>c. \<not> isDigit c) part;
          vStr = dropWhile (\<lambda>c. \<not> isDigit c) part
      in if vStr = '''' then Inl (''Could not get version from string: '' @ part)
         else (case plainMake vStr of
                 Inl err \<Rightarrow> Inl (''Could not parse version: '' @ err)
               | Inr w \<Rightarrow>
                   if opStr = '''' \<or> opStr = ''='' \<or> opStr = ''=='' then Inr (\<lambda>v. v = w)
                   else if opStr = ''!='' \<or> opStr = ''!'' then Inr (\<lambda>v. v \<noteq> w)
                   else if opStr = ''>'' then Inr (\<lambda>v. versionLess w v)
                   else if opStr = ''>='' then Inr (\<lambda>v. \<not> versionLess v w)
                   else if opStr = ''<'' then Inr (\<lambda>v. versionLess v w)
                   else if opStr = ''<='' then Inr (\<lambda>v. \<not> versionLess w v)
                   else Inl (''Could not parse comparator: '' @ opStr)))"

fun plainAll :: "string list \<Rightarrow> string + (nat \<times> nat \<times> nat \<Rightarrow> bool)" where
  "plainAll [] = Inr (\<lambda>v. True)"
| "plainAll (part # parts) =
     (case plainComparator part of
        Inl err \<Rightarrow> Inl err
      | Inr first \<Rightarrow>
          (case plainAll parts of
             Inl err \<Rightarrow> Inl err
           | Inr others \<Rightarrow> Inr (\<lambda>v. first v \<and> others v)))"

definition plainParseRange :: "string \<Rightarrow> string + (nat \<times> nat \<times> nat \<Rightarrow> bool)" where
  "plainParseRange s =
     (case filter (\<lambda>part. part \<noteq> '''') (splitChar CHR '' '' s) of
        [] \<Rightarrow> Inl ''empty range''
      | parts \<Rightarrow> plainAll parts)"

definition plainSemver :: "(nat \<times> nat \<times> nat) SemverLib" where
  "plainSemver = \<lparr>Make = plainMake, ParseRange = plainParseRange\<rparr>"


definition requiredConfig :: TGFConfig where
  "requiredConfig =
     InitConfig_literal\<lparr>ImageVersion := Some ''1.1'', RequiredVersionRange := ''>=1.2.0 <2.0.0''\<rparr>"

section \<open>Theorems\<close>

subsection \<open>Accumulated lists\<close>

lemma collectLayers_append:
  "collectLayers config (xs @ ys) = collectLayers (collectLayers config xs) ys"
  by (induction xs arbitrary: config) simp_all

lemma collectLayers_runBefore:
  "runBeforeCommands (collectLayers config cds) =
     runBeforeCommands config @ filter (\<lambda>s. s \<noteq> '''') (map layerRunBefore cds)"
  by (induction cds arbitrary: config)
     (simp_all add: collectLayer_def layerRunBefore_def Let_def split: option.splits)

lemma collectLayers_runAfter:
  "runAfterCommands (collectLayers config cds) =
     runAfterCommands config @ filter (\<lambda>s. s \<noteq> '''') (map layerRunAfter cds)"
  by (induction cds arbitrary: config)
     (simp_all add: collectLayer_def layerRunAfter_def Let_def split: option.splits)

lemma collectLayers_builds:
  "imageBuildConfigs (collectLayers config cds) =
     rev (List.map_filter layerBuild cds) @ imageBuildConfigs config"
  by (induction cds arbitrary: config)
     (simp_all add: collectLayer_def layerBuild_def Let_def List.map_filter_simps
        split: option.splits)

lemma filter_nonempty_id:
  "\<forall>x \<in> set xs. f x \<noteq> '''' \<Longrightarrow> filter (\<lambda>s. s \<noteq> '''') (map f xs) = map f xs"
  by (induction xs) simp_all

text \<open>
  C3. For layers \<open>[root, ..., leaf]\<close> that each contribute one run-before and one
  run-after command, merged into a configuration whose two command lists are still
  empty, the pre-run list is the layers' run-before commands in reverse order
  (\<open>[leaf, ..., root]\<close>) and the post-run list is the layers' run-after commands in
  discovery order (\<open>[root, ..., leaf]\<close>).
\<close>

theorem setDefaultValues_run_commands_order:
  assumes "\<forall>cd \<in> set layers. layerRunBefore cd \<noteq> '''' \<and> layerRunAfter cd \<noteq> ''''"
      and "runBeforeCommands config = []" and "runAfterCommands config = []"
  shows "runBeforeCommands (setDefaultValues_lists config layers) = rev (map layerRunBefore layers)
       \<and> runAfterCommands (setDefaultValues_lists config layers) = map layerRunAfter layers"
  using assms
  by (simp add: setDefaultValues_lists_def Let_def collectLayers_runBefore
        collectLayers_runAfter filter_nonempty_id)

theorem setDefaultValues_run_commands_order_witness:
  "runBeforeCommands (setDefaultValues_lists InitConfig_literal
       [layerOf ''/.tgf.config'' '''' ''echo root-pre'' ''echo root-post'',
        layerOf ''/a/.tgf.config'' '''' ''echo mid-pre'' ''echo mid-post'',
        layerOf ''/a/b/.tgf.config'' '''' ''echo leaf-pre'' ''echo leaf-post''])
     = [''echo leaf-pre'', ''echo mid-pre'', ''echo root-pre'']
   \<and> runAfterCommands (setDefaultValues_lists InitConfig_literal
       [layerOf ''/.tgf.config'' '''' ''echo root-pre'' ''echo root-post'',
        layerOf ''/a/.tgf.config'' '''' ''echo mid-pre'' ''echo mid-post'',
        layerOf ''/a/b/.tgf.config'' '''' ''echo leaf-pre'' ''echo leaf-post''])
     = [''echo root-post'', ''echo mid-post'', ''echo leaf-post'']"
  using setDefaultValues_run_commands_order [of
       "[layerOf ''/.tgf.config'' '''' ''echo root-pre'' ''echo root-post'',
         layerOf ''/a/.tgf.config'' '''' ''echo mid-pre'' ''echo mid-post'',
         layerOf ''/a/b/.tgf.config'' '''' ''echo leaf-pre'' ''echo leaf-post'']"
       InitConfig_literal]
  by (simp add: layerOf_def layerRunBefore_def layerRunAfter_def InitConfig_literal_def
        zeroConfig_def)

text \<open>
  C2 (as stated: the most specific layer's build instructions come last in
  \<open>imageBuildConfigs\<close>) fails: with a root layer and a leaf layer that both carry
  build instructions, the last entry of the list is the root's and the first is the leaf's.
\<close>

theorem imageBuildConfigs_most_specific_last_counterexample:
  "map Instructions (imageBuildConfigs (setDefaultValues_lists InitConfig_literal
       [layerOf ''/.tgf.config'' ''RUN root'' '''' '''',
        layerOf ''/a/.tgf.config'' ''RUN leaf'' '''' '''']))
     = [''RUN leaf'', ''RUN root'']
   \<and> Instructions (last (imageBuildConfigs (setDefaultValues_lists InitConfig_literal
       [layerOf ''/.tgf.config'' ''RUN root'' '''' '''',
        layerOf ''/a/.tgf.config'' ''RUN leaf'' '''' ''''])))
     \<noteq> ''RUN leaf''"
  by (simp add: setDefaultValues_lists_def collectLayer_def layerOf_def InitConfig_literal_def
        zeroConfig_def Let_def)

text \<open>
  C2 (amended). For every ordered list of layers, least specific first, each build entry
  is put in front of \<open>imageBuildConfigs\<close>: the list ends up in reverse layer order
  (followed by what it held before), so the build instructions of the most specific
  layer that has any come first in the list.
\<close>

theorem setDefaultValues_imageBuildConfigs_order:
  "imageBuildConfigs (setDefaultValues_lists config layers) =
     rev (List.map_filter layerBuild layers) @ imageBuildConfigs config
   \<and> (layerBuild leaf = Some b \<longrightarrow>
        hd (imageBuildConfigs (setDefaultValues_lists config (layers @ [leaf]))) = b)"
  by (simp add: setDefaultValues_lists_def Let_def collectLayers_builds List.map_filter_def)

theorem setDefaultValues_imageBuildConfigs_order_witness:
  "layerBuild (layerOf ''/a/.tgf.config'' ''RUN leaf'' '''' '''')
     = Some \<lparr>Instructions = ''RUN leaf'', Folder = '''', Tag = '''', source = ''/a/.tgf.config''\<rparr>
   \<and> hd (imageBuildConfigs (setDefaultValues_lists InitConfig_literal
         ([layerOf ''/.tgf.config'' ''RUN root'' '''' ''''] @
          [layerOf ''/a/.tgf.config'' ''RUN leaf'' '''' ''''])))
     = \<lparr>Instructions = ''RUN leaf'', Folder = '''', Tag = '''', source = ''/a/.tgf.config''\<rparr>"
  using setDefaultValues_imageBuildConfigs_order [of InitConfig_literal
       "[layerOf ''/.tgf.config'' ''RUN root'' '''' '''']"
       "layerOf ''/a/.tgf.config'' ''RUN leaf'' '''' ''''"
       "\<lparr>Instructions = ''RUN leaf'', Folder = '''', Tag = '''', source = ''/a/.tgf.config''\<rparr>"]
  by (simp add: layerBuild_def layerOf_def zeroConfig_def)

subsection \<open>The cloud-context gate\<close>

lemma awsConfigExist_check_gate:
  "awsConfigExist_check app os env = cloudContextGate app os env"
  by (auto simp add: awsConfigExist_check_def cloudContextGate_def Let_def split: option.splits)

lemma awsConfigExist_calls_cached:
  "cachedAWSConfigExistCheck proc = Some b \<Longrightarrow>
     awsConfigExist_calls proc calls = replicate (length calls) b"
  by (induction calls arbitrary: proc) (auto simp add: awsConfigExist_def)

text \<open>
  C9. The gate is memoized. Starting with an empty cache, the first call returns true
  iff cloud use is not disabled and an override or identity environment variable is
  set, or the cloud CLI is on the search path, or the credentials directory exists
  under the user's home; every later call of the process returns that same boolean,
  whatever the flags, the environment variables, the installed programs and the home
  directory have become in between.
\<close>

theorem awsConfigExist_memoized:
  assumes "cachedAWSConfigExistCheck proc = None"
  shows "awsConfigExist_calls proc ((app, os, env) # later) =
           replicate (Suc (length later)) (cloudContextGate app os env)"
  using assms
  by (simp add: awsConfigExist_def Let_def awsConfigExist_check_gate awsConfigExist_calls_cached)

theorem awsConfigExist_memoized_witness:
  "awsConfigExist_calls freshProcess
     [(cliApp, noOS, [''AWS_PROFILE'' \<mapsto> ''dev'']),
      (cliApp, noOS, Map.empty),
      (cliApp\<lparr>UseAWS := False\<rparr>, noOS, Map.empty)] = [True, True, True]
   \<and> awsConfigExist_calls freshProcess
     [(cliApp, noOS, Map.empty),
      (cliApp, noOS\<lparr>LookPath := (\<lambda>_. True)\<rparr>, [''AWS_PROFILE'' \<mapsto> ''dev''])] = [False, False]"
  using awsConfigExist_memoized [of freshProcess cliApp noOS
          "[''AWS_PROFILE'' \<mapsto> ''dev'']"
          "[(cliApp, noOS, Map.empty), (cliApp\<lparr>UseAWS := False\<rparr>, noOS, Map.empty)]"]
        awsConfigExist_memoized [of freshProcess cliApp noOS Map.empty
          "[(cliApp, noOS\<lparr>LookPath := (\<lambda>_. True)\<rparr>, [''AWS_PROFILE'' \<mapsto> ''dev''])]"]
  by (simp add: freshProcess_def cloudContextGate_def cliApp_def noOS_def Getenv_def)

subsection \<open>The AWS session\<close>

text \<open>
  The duration falls back to one hour when the identity cannot be resolved, when it is
  not an assumed role, and when the role cannot be looked up.
\<close>

lemma guessAwsMaxAssumeRoleDuration_fallback:
  "GetCallerIdentity aws awsConfig = Inl err \<Longrightarrow>
     guessAwsMaxAssumeRoleDuration aws awsConfig = Hour"
  "GetCallerIdentity aws awsConfig = Inr arn \<Longrightarrow> roleRegex_FindStringSubmatch arn = [] \<Longrightarrow>
     guessAwsMaxAssumeRoleDuration aws awsConfig = Hour"
  "GetCallerIdentity aws awsConfig = Inr arn \<Longrightarrow>
     roleRegex_FindStringSubmatch arn = m # roleName # ms \<Longrightarrow>
     GetRole aws awsConfig roleName = Inl err \<Longrightarrow>
     guessAwsMaxAssumeRoleDuration aws awsConfig = Hour"
  by (simp_all add: guessAwsMaxAssumeRoleDuration_def)

text \<open>
  When the second load fails, the first, short-lived configuration is returned without
  error and cached.
\<close>

lemma getAwsConfig_keeps_short_session:
  assumes "cachedAwsConfig proc = None"
      and "request = (AwsProfile app, if d > 0 then Some d else None)"
      and "LoadDefaultConfig aws (loadRequests proc @ [request]) = Inr shortConfig"
      and "Retrieve shortConfig = Inr creds"
      and "CanExpire creds" and "Until aws (Expires creds) < Hour"
      and "LoadDefaultConfig aws (loadRequests proc @ [request, request]) = Inl err"
  shows "getAwsConfig app aws d proc =
           (Inr shortConfig,
            proc\<lparr>loadRequests := loadRequests proc @ [request, request],
                 cachedAwsConfig := Some shortConfig\<rparr>)"
  using assms by (simp add: getAwsConfig_def loadDefaultConfig_def Let_def)

text \<open>
  C1, evaluated where the claim and the code part. Nothing is cached, the first
  session expires in thirty minutes, the caller is the assumed role \<open>deployer\<close> whose
  maximum session duration is four hours, and the SDK would hand out a long session to a
  request that carries a duration. \<open>guessAwsMaxAssumeRoleDuration\<close> computes the four
  hours, but the second request that \<open>getAwsConfig\<close> sends carries no duration, as the
  first (\<open>assumeRoleDuration\<close> is still 0), and the short session is what is returned
  and cached. On any input, every request that \<open>getAwsConfig\<close> sends carries the
  duration of its caller, never the computed one.
\<close>

theorem getAwsConfig_renegotiation_request:
  "guessAwsMaxAssumeRoleDuration roleWorld shortSession = 14400 * Second
   \<and> getAwsConfig cliApp roleWorld 0 freshProcess =
       (Inr shortSession,
        freshProcess\<lparr>cachedAwsConfig := Some shortSession,
                      loadRequests := [('''', None), ('''', None)]\<rparr>)
   \<and> LoadDefaultConfig roleWorld [('''', None), ('''', Some (14400 * Second))] =
       Inr (longSession (14400 * Second))
   \<and> set (loadRequests (snd (getAwsConfig app aws assumeRoleDuration proc)))
       \<subseteq> insert (AwsProfile app, if assumeRoleDuration > 0 then Some assumeRoleDuration else None)
           (set (loadRequests proc))"
proof (intro conjI)
  show "guessAwsMaxAssumeRoleDuration roleWorld shortSession = 14400 * Second"
    by (simp add: guessAwsMaxAssumeRoleDuration_def roleWorld_def
          roleRegex_FindStringSubmatch_def hasPrefix_def upToLastSlash_def)
  show "getAwsConfig cliApp roleWorld 0 freshProcess =
       (Inr shortSession,
        freshProcess\<lparr>cachedAwsConfig := Some shortSession,
                      loadRequests := [('''', None), ('''', None)]\<rparr>)"
    by (simp add: getAwsConfig_def loadDefaultConfig_def roleWorld_def shortSession_def
          cliApp_def freshProcess_def Let_def Hour_def Second_def)
  show "LoadDefaultConfig roleWorld [('''', None), ('''', Some (14400 * Second))] =
       Inr (longSession (14400 * Second))"
    by (simp add: roleWorld_def)
  show "set (loadRequests (snd (getAwsConfig app aws assumeRoleDuration proc)))
       \<subseteq> insert (AwsProfile app, if assumeRoleDuration > 0 then Some assumeRoleDuration else None)
           (set (loadRequests proc))"
    by (auto simp add: getAwsConfig_def loadDefaultConfig_def Let_def
          split: option.splits sum.splits prod.splits if_splits)
qed

lemma getAwsConfig_cached:
  "getAwsConfig app aws d proc = (Inr awsConfig, proc') \<Longrightarrow> cachedAwsConfig proc' = Some awsConfig"
  by (auto simp add: getAwsConfig_def loadDefaultConfig_def Let_def
        split: option.splits sum.splits prod.splits if_splits)

lemma getAwsConfig_environ:
  "getAwsConfig app aws d proc = (r, proc') \<Longrightarrow> environ proc' = environ proc"
  by (auto simp add: getAwsConfig_def loadDefaultConfig_def Let_def
        split: option.splits sum.splits prod.splits if_splits)

text \<open>
  C10. When \<open>InitAWS\<close> succeeds, the access key, the secret key, the session token and
  the region of the resolved session are set in the environment of the process (and the
  two profile variables are unset). With the config-dump option the \<open>Environment\<close>
  mapping of the configuration is left as it was, so none of the four keys is written
  into it; without the option all four keys are written into it.
\<close>

theorem InitAWS_credentials_export:
  assumes "InitAWS app aws proc config = (None, proc', config')"
  shows "\<exists>awsConfig creds.
           cachedAwsConfig proc' = Some awsConfig \<and> Retrieve awsConfig = Inr creds
         \<and> environ proc' =
             (environ proc)(''AWS_PROFILE'' := None, ''AWS_DEFAULT_PROFILE'' := None,
               ''AWS_ACCESS_KEY_ID'' \<mapsto> AccessKeyID creds,
               ''AWS_SECRET_ACCESS_KEY'' \<mapsto> SecretAccessKey creds,
               ''AWS_SESSION_TOKEN'' \<mapsto> SessionToken creds,
               ''AWS_REGION'' \<mapsto> Region awsConfig)
         \<and> (ConfigDump app \<longrightarrow> Environment config' = Environment config)
         \<and> (\<not> ConfigDump app \<longrightarrow>
               Environment config' =
                 (Environment config)(''AWS_ACCESS_KEY_ID'' \<mapsto> AccessKeyID creds,
                   ''AWS_SECRET_ACCESS_KEY'' \<mapsto> SecretAccessKey creds,
                   ''AWS_SESSION_TOKEN'' \<mapsto> SessionToken creds,
                   ''AWS_REGION'' \<mapsto> Region awsConfig))"
proof -
  obtain r p1 where g: "getAwsConfig app aws 0 proc = (r, p1)"
    by (cases "getAwsConfig app aws 0 proc")
  from assms g obtain awsConfig where r: "r = Inr awsConfig"
    by (cases r) (auto simp add: InitAWS_def)
  from assms g r obtain creds where c: "Retrieve awsConfig = Inr creds"
    by (cases "Retrieve awsConfig") (auto simp add: InitAWS_def)
  have cache: "cachedAwsConfig p1 = Some awsConfig"
    using g r getAwsConfig_cached by blast
  have env: "environ p1 = environ proc"
    using g getAwsConfig_environ by blast
  from assms g r c have p': "proc' = fst (foldl (exportCredential app)
       (Unsetenv ''AWS_DEFAULT_PROFILE'' (Unsetenv ''AWS_PROFILE'' p1), config)
                        [(''AWS_ACCESS_KEY_ID'', AccessKeyID creds),
                         (''AWS_SECRET_ACCESS_KEY'', SecretAccessKey creds),
                         (''AWS_SESSION_TOKEN'', SessionToken creds),
                         (''AWS_REGION'', Region awsConfig)])"
    and c': "config' = snd (foldl (exportCredential app)
       (Unsetenv ''AWS_DEFAULT_PROFILE'' (Unsetenv ''AWS_PROFILE'' p1), config)
                        [(''AWS_ACCESS_KEY_ID'', AccessKeyID creds),
                         (''AWS_SECRET_ACCESS_KEY'', SecretAccessKey creds),
                         (''AWS_SESSION_TOKEN'', SessionToken creds),
                         (''AWS_REGION'', Region awsConfig)])"
    by (auto simp add: InitAWS_def Let_def split: prod.splits)
  show ?thesis
    apply (rule exI [of _ awsConfig], rule exI [of _ creds])
    using cache c env
    by (simp add: p' c' exportCredential_def Setenv_def Unsetenv_def)
qed

theorem InitAWS_credentials_export_witness:
  "Environment (snd (snd (InitAWS (cliApp\<lparr>ConfigDump := True\<rparr>) roleWorld freshProcess
       InitConfig_literal))) = Map.empty
   \<and> environ (fst (snd (InitAWS (cliApp\<lparr>ConfigDump := True\<rparr>) roleWorld freshProcess
       InitConfig_literal))) ''AWS_ACCESS_KEY_ID'' = Some ''AKIASHORT''
   \<and> Environment (snd (snd (InitAWS cliApp roleWorld freshProcess InitConfig_literal))) =
       [''AWS_ACCESS_KEY_ID'' \<mapsto> ''AKIASHORT'', ''AWS_SECRET_ACCESS_KEY'' \<mapsto> ''secret'',
        ''AWS_SESSION_TOKEN'' \<mapsto> ''token'', ''AWS_REGION'' \<mapsto> ''us-east-1'']"
proof -
  have dump: "InitAWS (cliApp\<lparr>ConfigDump := True\<rparr>) roleWorld freshProcess InitConfig_literal =
      (None, fst (snd (InitAWS (cliApp\<lparr>ConfigDump := True\<rparr>) roleWorld freshProcess
                         InitConfig_literal)),
       snd (snd (InitAWS (cliApp\<lparr>ConfigDump := True\<rparr>) roleWorld freshProcess
                         InitConfig_literal)))"
    by (simp add: InitAWS_def getAwsConfig_def loadDefaultConfig_def roleWorld_def
          shortSession_def cliApp_def freshProcess_def Let_def Hour_def Second_def
          split: prod.splits)
  have run: "InitAWS cliApp roleWorld freshProcess InitConfig_literal =
      (None, fst (snd (InitAWS cliApp roleWorld freshProcess InitConfig_literal)),
       snd (snd (InitAWS cliApp roleWorld freshProcess InitConfig_literal)))"
    by (simp add: InitAWS_def getAwsConfig_def loadDefaultConfig_def roleWorld_def
          shortSession_def cliApp_def freshProcess_def Let_def Hour_def Second_def
          split: prod.splits)
  have cache: "cachedAwsConfig (fst (snd (InitAWS app roleWorld freshProcess InitConfig_literal)))
      = Some shortSession" for app
    by (simp add: InitAWS_def getAwsConfig_def loadDefaultConfig_def roleWorld_def
          shortSession_def freshProcess_def Let_def Hour_def Second_def
          exportCredential_def Setenv_def Unsetenv_def split: prod.splits)
  let ?D = "InitAWS (cliApp\<lparr>ConfigDump := True\<rparr>) roleWorld freshProcess InitConfig_literal"
  let ?R = "InitAWS cliApp roleWorld freshProcess InitConfig_literal"
  from InitAWS_credentials_export [OF dump] obtain a c where
      d1: "cachedAwsConfig (fst (snd ?D)) = Some a" and d2: "Retrieve a = Inr c"
      and d3: "environ (fst (snd ?D)) ''AWS_ACCESS_KEY_ID'' = Some (AccessKeyID c)"
      and d4: "Environment (snd (snd ?D)) = Environment InitConfig_literal"
    by (auto simp add: cliApp_def)
  from InitAWS_credentials_export [OF run] obtain a' c' where
      r1: "cachedAwsConfig (fst (snd ?R)) = Some a'" and r2: "Retrieve a' = Inr c'"
      and r4: "Environment (snd (snd ?R)) =
                 (Environment InitConfig_literal)(''AWS_ACCESS_KEY_ID'' \<mapsto> AccessKeyID c',
                   ''AWS_SECRET_ACCESS_KEY'' \<mapsto> SecretAccessKey c',
                   ''AWS_SESSION_TOKEN'' \<mapsto> SessionToken c',
                   ''AWS_REGION'' \<mapsto> Region a')"
    by (auto simp add: cliApp_def)
  from d1 r1 have "a = shortSession" and "a' = shortSession"
    by (simp_all add: cache)
  with d2 d3 d4 r2 r4 show ?thesis
    by (auto simp add: shortSession_def InitConfig_literal_def zeroConfig_def)
qed

subsection \<open>The build tag\<close>

lemma foldl_hashWalkFn:
  "foldl (hashWalkFn p) h entries = h @ concat (map (fileStamp p) entries)"
  by (induction entries arbitrary: h)
     (auto simp add: hashWalkFn_def fileStamp_def split: option.splits)

lemma tagRegex_ReplaceAllString_chars:
  "set (tagRegex_ReplaceAllString tag) \<subseteq> tagChars"
  by (auto simp add: tagRegex_ReplaceAllString_def)

text \<open>
  C6 (as stated: the fingerprint and the prefix use the base name of the build context
  folder) fails. The build spec comes from \<open>/proj/app/.tgf.config\<close> and configures the
  folder \<open>/ctx/docker\<close>: that folder is the one walked, but the bytes hashed start with
  \<open>app\<close> and the tag with \<open>app-\<close>, where the claim has \<open>docker\<close>.
\<close>

theorem GetTag_context_folder_name_counterexample:
  "TGFConfigBuild_Dir ctxOS ctxBuild = Some ''/ctx/docker''
   \<and> hashInput ''TGFDockerfile'' ctxOS ctxBuild = Some ''appRUN x2024-05-01 10:00:00 +0000 UTC''
   \<and> GetTag sampleDigest ''TGFDockerfile'' ctxOS ctxBuild
       = Some ''app-0123456789abcdef0123456789abcdef''
   \<and> contextFolderTag sampleDigest ''TGFDockerfile'' ctxOS ctxBuild
       = Some ''docker-0123456789abcdef0123456789abcdef''
   \<and> GetTag sampleDigest ''TGFDockerfile'' ctxOS ctxBuild
       \<noteq> contextFolderTag sampleDigest ''TGFDockerfile'' ctxOS ctxBuild"
  by (simp add: TGFConfigBuild_Dir_def hashInput_def GetTag_def hash_def contextFolderTag_def
        ctxOS_def ctxBuild_def noOS_def sampleDigest_def IsAbs_def hasPrefix_def Dir_def Base_def
        Clean_def cleanStep_def hashWalkFn_def tagRegex_ReplaceAllString_def tagChars_def
        Let_def)

text \<open>
  C6 (amended). For a build spec without an explicit tag, the fingerprint hashes the
  base name of the directory that holds the configuration source of the build spec,
  the instruction text and, when a build-context folder is configured, the modification
  timestamps of every file under that folder whose path does not contain the
  build-descriptor pattern; the tag is that same base name, a hyphen and the hex digest.
  With an explicit tag, the tag is the explicit one. In both cases every character
  outside the alphanumerics, dot, underscore and hyphen is removed, so the returned tag
  has none. No tag is returned only when the folder is relative and the working
  directory cannot be read.
\<close>

theorem GetTag_fingerprint:
  "(Tag cb = '''' \<and> Folder cb = '''' \<longrightarrow>
      GetTag md5hex pat os cb =
        Some (tagRegex_ReplaceAllString
                (Base (Dir (source cb)) @ ''-'' @
                 md5hex (Base (Dir (source cb)) @ Instructions cb))))
   \<and> (Tag cb = '''' \<and> Folder cb \<noteq> '''' \<and> TGFConfigBuild_Dir os cb = Some dir \<longrightarrow>
      GetTag md5hex pat os cb =
        Some (tagRegex_ReplaceAllString
                (Base (Dir (source cb)) @ ''-'' @
                 md5hex (Base (Dir (source cb)) @ Instructions cb @
                         concat (map (fileStamp pat) (Walk os dir))))))
   \<and> (Tag cb \<noteq> '''' \<longrightarrow> GetTag md5hex pat os cb = Some (tagRegex_ReplaceAllString (Tag cb)))
   \<and> (GetTag md5hex pat os cb = Some tag \<longrightarrow> set tag \<subseteq> tagChars)
   \<and> (GetTag md5hex pat os cb = None \<longleftrightarrow>
        Tag cb = '''' \<and> Folder cb \<noteq> '''' \<and> \<not> IsAbs (Folder cb)
        \<and> \<not> IsAbs (Join [Dir (source cb), Folder cb]) \<and> Getwd os = None)"
proof (intro conjI impI)
  assume "Tag cb = '''' \<and> Folder cb = ''''"
  then show "GetTag md5hex pat os cb =
        Some (tagRegex_ReplaceAllString
                (Base (Dir (source cb)) @ ''-'' @
                 md5hex (Base (Dir (source cb)) @ Instructions cb)))"
    by (simp add: GetTag_def hash_def hashInput_def Let_def)
next
  assume "Tag cb = '''' \<and> Folder cb \<noteq> '''' \<and> TGFConfigBuild_Dir os cb = Some dir"
  then show "GetTag md5hex pat os cb =
        Some (tagRegex_ReplaceAllString
                (Base (Dir (source cb)) @ ''-'' @
                 md5hex (Base (Dir (source cb)) @ Instructions cb @
                         concat (map (fileStamp pat) (Walk os dir)))))"
    by (simp add: GetTag_def hash_def hashInput_def Let_def foldl_hashWalkFn)
next
  assume "Tag cb \<noteq> ''''"
  then show "GetTag md5hex pat os cb = Some (tagRegex_ReplaceAllString (Tag cb))"
    by (simp add: GetTag_def Let_def)
next
  assume "GetTag md5hex pat os cb = Some tag"
  then have "\<exists>t. tag = tagRegex_ReplaceAllString t"
    by (auto simp add: GetTag_def Let_def split: if_splits option.splits)
  then show "set tag \<subseteq> tagChars"
    using tagRegex_ReplaceAllString_chars by blast
next
  show "GetTag md5hex pat os cb = None \<longleftrightarrow>
        Tag cb = '''' \<and> Folder cb \<noteq> '''' \<and> \<not> IsAbs (Folder cb)
        \<and> \<not> IsAbs (Join [Dir (source cb), Folder cb]) \<and> Getwd os = None"
    by (auto simp add: GetTag_def hash_def hashInput_def TGFConfigBuild_Dir_def Abs_def Let_def
          split: if_splits option.splits)
qed

theorem GetTag_fingerprint_witness:
  "GetTag sampleDigest ''TGFDockerfile'' ctxOS ctxBuild
     = Some ''app-0123456789abcdef0123456789abcdef''
   \<and> GetTag sampleDigest ''TGFDockerfile'' ctxOS (ctxBuild\<lparr>Tag := ''my tag:1.0''\<rparr>)
     = Some ''mytag1.0''
   \<and> set ''mytag1.0'' \<subseteq> tagChars"
proof -
  have b: "Base (Dir (source ctxBuild)) = ''app''"
    by (simp add: ctxBuild_def Dir_def Base_def Clean_def cleanStep_def hasPrefix_def Let_def)
  have t: "Tag ctxBuild = '''' \<and> Folder ctxBuild \<noteq> ''''
           \<and> TGFConfigBuild_Dir ctxOS ctxBuild = Some ''/ctx/docker''"
    by (simp add: TGFConfigBuild_Dir_def ctxBuild_def IsAbs_def hasPrefix_def)
  with GetTag_fingerprint [of ctxBuild sampleDigest "''TGFDockerfile''" ctxOS "''/ctx/docker''"]
  have "GetTag sampleDigest ''TGFDockerfile'' ctxOS ctxBuild =
          Some (tagRegex_ReplaceAllString
                  (Base (Dir (source ctxBuild)) @ ''-'' @
                   sampleDigest (Base (Dir (source ctxBuild)) @ Instructions ctxBuild @
                     concat (map (fileStamp ''TGFDockerfile'') (Walk ctxOS ''/ctx/docker'')))))"
    by blast
  then have g1: "GetTag sampleDigest ''TGFDockerfile'' ctxOS ctxBuild
                   = Some ''app-0123456789abcdef0123456789abcdef''"
    by (simp add: b sampleDigest_def tagRegex_ReplaceAllString_def tagChars_def)
  have "Tag (ctxBuild\<lparr>Tag := ''my tag:1.0''\<rparr>) \<noteq> ''''"
    by simp
  with GetTag_fingerprint [of "ctxBuild\<lparr>Tag := ''my tag:1.0''\<rparr>" sampleDigest
         "''TGFDockerfile''" ctxOS]
  have "GetTag sampleDigest ''TGFDockerfile'' ctxOS (ctxBuild\<lparr>Tag := ''my tag:1.0''\<rparr>)
          = Some (tagRegex_ReplaceAllString (Tag (ctxBuild\<lparr>Tag := ''my tag:1.0''\<rparr>)))"
    by blast
  then have g2: "GetTag sampleDigest ''TGFDockerfile'' ctxOS (ctxBuild\<lparr>Tag := ''my tag:1.0''\<rparr>)
                   = Some ''mytag1.0''"
    by (simp add: tagRegex_ReplaceAllString_def tagChars_def)
  from g2 GetTag_fingerprint [of "ctxBuild\<lparr>Tag := ''my tag:1.0''\<rparr>" sampleDigest
         "''TGFDockerfile''" ctxOS _ "''mytag1.0''"]
  have g3: "set ''mytag1.0'' \<subseteq> tagChars"
    by blast
  from g1 g2 g3 show ?thesis
    by blast
qed

subsection \<open>Alias expansion\<close>

text \<open>
  C7. \<open>parseAliases\<close> leaves an empty argument list and a list whose leading argument
  has no (non-empty) replacement in the alias table as they are. When the leading
  argument has a replacement, the result is the expansion of the words of the
  replacement (the recursion on the new leading token), followed by all the other
  original arguments unchanged. The words of a replacement are the words of the string
  in which the library has protected the quoted substrings: when nothing was quoted
  they are taken as they are; when something was, each word has the quoted substrings
  put back, its first \<^verbatim>\<open>="\<close> replaced by \<^verbatim>\<open>=\<close> and its surrounding double quotes
  trimmed, so that there are as many words as the protected string has and a blank
  inside quotes splits nothing. With \<open>deploy\<close> mapped to \<open>apply -auto-approve\<close> (a
  string without quotes, split by the library into its two words), the arguments
  \<open>deploy -var x=1\<close> become \<open>apply -auto-approve -var x=1\<close>; with \<open>deploy\<close> mapped
  to \<^verbatim>\<open>apply -var="a b"\<close>, for a library that protects the quoted part and splits the
  rest in two, \<open>deploy -auto-approve\<close> becomes the three arguments \<open>apply\<close>,
  \<open>-var=a b\<close> and \<open>-auto-approve\<close>.
\<close>

theorem parseAliases_leading_argument:
  "parseAliases lib aliases [] = Some []
   \<and> (aliasReplacement aliases arg0 = '''' \<longrightarrow>
        parseAliases lib aliases (arg0 # rest) = Some (arg0 # rest))
   \<and> (aliasReplacement aliases arg0 \<noteq> '''' \<longrightarrow>
        parseAliases lib aliases (arg0 # rest) =
          map_option (\<lambda>expanded. expanded @ rest)
            (parseAliases lib aliases (aliasFields lib (aliasReplacement aliases arg0))))
   \<and> (Protect lib ''apply -auto-approve'' = (''apply -auto-approve'', [])
        \<and> Fields lib ''apply -auto-approve'' = [''apply'', ''-auto-approve''] \<longrightarrow>
        parseAliases lib [''deploy'' \<mapsto> ''apply -auto-approve''] [''deploy'', ''-var'', ''x=1'']
          = Some [''apply'', ''-auto-approve'', ''-var'', ''x=1''])
   \<and> (Protect lib replace = (protected, []) \<longrightarrow>
        aliasFields lib replace = Fields lib protected)
   \<and> (Protect lib replace = (protected, quoted) \<and> quoted \<noteq> [] \<longrightarrow>
        aliasFields lib replace =
          map (\<lambda>field. Trim lib (ReplaceN lib (RestoreProtected lib field quoted)
                                   (''='' @ [CHR 0x22]) ''='' 1) [CHR 0x22])
              (Fields lib protected)
        \<and> length (aliasFields lib replace) = length (Fields lib protected))
   \<and> (Protect lib quotedReplacement = (protected', quoted') \<and> quoted' \<noteq> []
        \<and> Fields lib protected' = [wordA, wordB]
        \<and> RestoreProtected lib wordA quoted' = ''apply''
        \<and> RestoreProtected lib wordB quoted' = ''-var='' @ [CHR 0x22] @ ''a b'' @ [CHR 0x22]
        \<and> ReplaceN lib ''apply'' (''='' @ [CHR 0x22]) ''='' 1 = ''apply''
        \<and> ReplaceN lib (''-var='' @ [CHR 0x22] @ ''a b'' @ [CHR 0x22]) (''='' @ [CHR 0x22]) ''='' 1
            = ''-var=a b'' @ [CHR 0x22]
        \<and> Trim lib ''apply'' [CHR 0x22] = ''apply''
        \<and> Trim lib (''-var=a b'' @ [CHR 0x22]) [CHR 0x22] = ''-var=a b'' \<longrightarrow>
        aliasFields lib quotedReplacement = [''apply'', ''-var=a b'']
        \<and> parseAliases lib [''deploy'' \<mapsto> quotedReplacement] [''deploy'', ''-auto-approve'']
            = Some [''apply'', ''-var=a b'', ''-auto-approve''])"
proof (intro conjI impI)
  show "parseAliases lib aliases [] = Some []"
    by (simp add: parseAliases.simps)
next
  assume "aliasReplacement aliases arg0 = ''''"
  then show "parseAliases lib aliases (arg0 # rest) = Some (arg0 # rest)"
    by (simp add: parseAliases.simps)
next
  assume "aliasReplacement aliases arg0 \<noteq> ''''"
  then show "parseAliases lib aliases (arg0 # rest) =
          map_option (\<lambda>expanded. expanded @ rest)
            (parseAliases lib aliases (aliasFields lib (aliasReplacement aliases arg0)))"
    by (subst parseAliases.simps)
       (cases "parseAliases lib aliases (aliasFields lib (aliasReplacement aliases arg0))";
        simp add: Let_def)
next
  assume lib: "Protect lib ''apply -auto-approve'' = (''apply -auto-approve'', [])
        \<and> Fields lib ''apply -auto-approve'' = [''apply'', ''-auto-approve'']"
  have inner: "parseAliases lib [''deploy'' \<mapsto> ''apply -auto-approve'']
                 [''apply'', ''-auto-approve''] = Some [''apply'', ''-auto-approve'']"
    by (simp add: parseAliases.simps aliasReplacement_def)
  show "parseAliases lib [''deploy'' \<mapsto> ''apply -auto-approve''] [''deploy'', ''-var'', ''x=1'']
          = Some [''apply'', ''-auto-approve'', ''-var'', ''x=1'']"
    by (subst parseAliases.simps) (simp add: aliasReplacement_def aliasFields_def lib inner)
next
  assume "Protect lib replace = (protected, [])"
  then show "aliasFields lib replace = Fields lib protected"
    by (simp add: aliasFields_def)
next
  assume q: "Protect lib replace = (protected, quoted) \<and> quoted \<noteq> []"
  then show f: "aliasFields lib replace =
          map (\<lambda>field. Trim lib (ReplaceN lib (RestoreProtected lib field quoted)
                                   (''='' @ [CHR 0x22]) ''='' 1) [CHR 0x22])
              (Fields lib protected)"
    by (simp add: aliasFields_def Let_def)
  show "length (aliasFields lib replace) = length (Fields lib protected)"
    by (simp add: f)
next
  assume q: "Protect lib quotedReplacement = (protected', quoted') \<and> quoted' \<noteq> []
        \<and> Fields lib protected' = [wordA, wordB]
        \<and> RestoreProtected lib wordA quoted' = ''apply''
        \<and> RestoreProtected lib wordB quoted' = ''-var='' @ [CHR 0x22] @ ''a b'' @ [CHR 0x22]
        \<and> ReplaceN lib ''apply'' (''='' @ [CHR 0x22]) ''='' 1 = ''apply''
        \<and> ReplaceN lib (''-var='' @ [CHR 0x22] @ ''a b'' @ [CHR 0x22]) (''='' @ [CHR 0x22]) ''='' 1
            = ''-var=a b'' @ [CHR 0x22]
        \<and> Trim lib ''apply'' [CHR 0x22] = ''apply''
        \<and> Trim lib (''-var=a b'' @ [CHR 0x22]) [CHR 0x22] = ''-var=a b''"
  then show f: "aliasFields lib quotedReplacement = [''apply'', ''-var=a b'']"
    by (simp add: aliasFields_def Let_def)
  have r: "aliasReplacement [''deploy'' \<mapsto> quotedReplacement] ''deploy'' = quotedReplacement"
          "quotedReplacement \<noteq> ''''"
    by (simp_all add: aliasReplacement_def quotedReplacement_def)
  have inner: "parseAliases lib [''deploy'' \<mapsto> quotedReplacement] [''apply'', ''-var=a b'']
                 = Some [''apply'', ''-var=a b'']"
    by (simp add: parseAliases.simps aliasReplacement_def)
  show "parseAliases lib [''deploy'' \<mapsto> quotedReplacement] [''deploy'', ''-auto-approve'']
            = Some [''apply'', ''-var=a b'', ''-auto-approve'']"
    by (subst parseAliases.simps) (simp add: r f inner)
qed

theorem parseAliases_leading_argument_witness:
  "parseAliases plainLib [''deploy'' \<mapsto> ''apply -auto-approve''] [''deploy'', ''-var'', ''x=1'']
     = Some [''apply'', ''-auto-approve'', ''-var'', ''x=1'']
   \<and> parseAliases plainLib [''deploy'' \<mapsto> ''apply -auto-approve''] [''plan'', ''deploy'']
     = Some [''plan'', ''deploy'']
   \<and> parseAliases plainLib [''d'' \<mapsto> ''deploy -x'', ''deploy'' \<mapsto> ''apply -auto-approve'']
        [''d'', ''-var'', ''x=1'']
     = Some [''apply'', ''-auto-approve'', ''-x'', ''-var'', ''x=1'']
   \<and> parseAliases quotingLib [''deploy'' \<mapsto> quotedReplacement] [''deploy'', ''-auto-approve'']
     = Some [''apply'', ''-var=a b'', ''-auto-approve'']
   \<and> aliasFields quotingLib quotedReplacement = [''apply'', ''-var=a b'']
   \<and> Fields quotingLib quotedReplacement
       = [''apply'', ''-var='' @ [CHR 0x22] @ ''a'', ''b'' @ [CHR 0x22]]"
proof -
  have p: "Protect plainLib ''apply -auto-approve'' = (''apply -auto-approve'', [])
        \<and> Fields plainLib ''apply -auto-approve'' = [''apply'', ''-auto-approve'']"
    by (simp add: plainLib_def)
  have a: "aliasReplacement [''deploy'' \<mapsto> ''apply -auto-approve''] ''plan'' = ''''"
    by (simp add: aliasReplacement_def)
  let ?al = "[''d'' \<mapsto> ''deploy -x'', ''deploy'' \<mapsto> ''apply -auto-approve'']"
  have d: "aliasReplacement ?al ''d'' = ''deploy -x''"
          "aliasReplacement ?al ''deploy'' = ''apply -auto-approve''"
          "aliasReplacement ?al ''apply'' = ''''"
    by (simp_all add: aliasReplacement_def)
  have f: "aliasFields plainLib ''deploy -x'' = [''deploy'', ''-x'']"
          "aliasFields plainLib ''apply -auto-approve'' = [''apply'', ''-auto-approve'']"
    by (simp_all add: aliasFields_def plainLib_def)
  from p parseAliases_leading_argument [where lib = plainLib]
  have c0: "parseAliases plainLib [''deploy'' \<mapsto> ''apply -auto-approve'']
              [''deploy'', ''-var'', ''x=1'']
            = Some [''apply'', ''-auto-approve'', ''-var'', ''x=1'']"
    by blast
  from a parseAliases_leading_argument [where lib = plainLib
         and aliases = "[''deploy'' \<mapsto> ''apply -auto-approve'']" and ?arg0.0 = "''plan''"
         and rest = "[''deploy'']"]
  have c00: "parseAliases plainLib [''deploy'' \<mapsto> ''apply -auto-approve''] [''plan'', ''deploy'']
            = Some [''plan'', ''deploy'']"
    by blast
  have c1: "parseAliases plainLib ?al [''apply'', ''-auto-approve''] = Some [''apply'', ''-auto-approve'']"
    using parseAliases_leading_argument [where lib = plainLib and aliases = ?al
            and ?arg0.0 = "''apply''" and rest = "[''-auto-approve'']"] d
    by simp
  have c2: "parseAliases plainLib ?al [''deploy'', ''-x''] = Some [''apply'', ''-auto-approve'', ''-x'']"
    using parseAliases_leading_argument [where lib = plainLib and aliases = ?al
            and ?arg0.0 = "''deploy''" and rest = "[''-x'']"] d f c1
    by simp
  have c3: "parseAliases plainLib ?al [''d'', ''-var'', ''x=1'']
              = Some [''apply'', ''-auto-approve'', ''-x'', ''-var'', ''x=1'']"
    using parseAliases_leading_argument [where lib = plainLib and aliases = ?al
            and ?arg0.0 = "''d''" and rest = "[''-var'', ''x=1'']"] d f c2
    by simp
  have q: "Protect quotingLib quotedReplacement
             = (''apply -var='' @ [CHR 0x01], [[CHR 0x22] @ ''a b'' @ [CHR 0x22]])
        \<and> [[CHR 0x22] @ ''a b'' @ [CHR 0x22]] \<noteq> []
        \<and> Fields quotingLib (''apply -var='' @ [CHR 0x01]) = [''apply'', ''-var='' @ [CHR 0x01]]
        \<and> RestoreProtected quotingLib ''apply'' [[CHR 0x22] @ ''a b'' @ [CHR 0x22]] = ''apply''
        \<and> RestoreProtected quotingLib (''-var='' @ [CHR 0x01]) [[CHR 0x22] @ ''a b'' @ [CHR 0x22]]
            = ''-var='' @ [CHR 0x22] @ ''a b'' @ [CHR 0x22]
        \<and> ReplaceN quotingLib ''apply'' (''='' @ [CHR 0x22]) ''='' 1 = ''apply''
        \<and> ReplaceN quotingLib (''-var='' @ [CHR 0x22] @ ''a b'' @ [CHR 0x22]) (''='' @ [CHR 0x22]) ''='' 1
            = ''-var=a b'' @ [CHR 0x22]
        \<and> Trim quotingLib ''apply'' [CHR 0x22] = ''apply''
        \<and> Trim quotingLib (''-var=a b'' @ [CHR 0x22]) [CHR 0x22] = ''-var=a b''"
    by (simp add: quotingLib_def quotedReplacement_def isSpaceChar_def restoreTokens_def
          tokenChars_def hasPrefix_def trimCutset_def)
  have n: "Fields quotingLib quotedReplacement
             = [''apply'', ''-var='' @ [CHR 0x22] @ ''a'', ''b'' @ [CHR 0x22]]"
    by (simp add: quotingLib_def quotedReplacement_def isSpaceChar_def)
  from q parseAliases_leading_argument [where lib = quotingLib
         and protected' = "''apply -var='' @ [CHR 0x01]"
         and quoted' = "[[CHR 0x22] @ ''a b'' @ [CHR 0x22]]"
         and wordA = "''apply''" and wordB = "''-var='' @ [CHR 0x01]"]
  have c4: "aliasFields quotingLib quotedReplacement = [''apply'', ''-var=a b'']
        \<and> parseAliases quotingLib [''deploy'' \<mapsto> quotedReplacement] [''deploy'', ''-auto-approve'']
            = Some [''apply'', ''-var=a b'', ''-auto-approve'']"
    by blast
  from c0 c00 c3 c4 n show ?thesis
    by blast
qed

subsection \<open>Version validation\<close>

lemma countChar_append: "countChar c (xs @ ys) = countChar c xs + countChar c ys"
  by (induction xs) simp_all

lemma ValidateVersion_range_append:
  "ValidateVersion_range cli (xs @ ys) = (ValidateVersion_range cli xs \<and> ValidateVersion_range cli ys)"
  by (induction cli xs rule: ValidateVersion_range.induct) simp_all

lemma ValidateVersion_range_no_mismatch:
  "\<forall>f \<in> set errs. \<forall>m. f \<noteq> VersionMistmatchError m \<Longrightarrow>
     ValidateVersion_range cli errs = noHardError errs"
  by (induction cli errs rule: ValidateVersion_range.induct) (simp_all add: noHardError_def)

lemma validate_head_no_mismatch:
  "\<forall>f \<in> set (validate_head lib v lb config). \<forall>m. f \<noteq> VersionMistmatchError m"
  by (auto simp add: validate_head_def Let_def split: option.splits sum.splits if_splits)

lemma ValidateVersion_range_head:
  "ValidateVersion_range cli (validate_head lib v lb config) = noHardError (validate_head lib v lb config)"
  by (rule ValidateVersion_range_no_mismatch) (rule validate_head_no_mismatch)


text \<open>
  C4. \<open>CheckVersionRange\<close> pads a version that has exactly one dot with the patch
  component \<open>9999\<close> before the library compares it: checking \<open>v\<close> is checking
  \<open>v.9999\<close>. For a semantic-version library that parses \<open>1.2.9999\<close> and
  \<open>1.1.9999\<close>, and reads \<open>>=1.2.0 <2.0.0\<close> as a range that holds the first and not
  the second, \<open>1.2\<close> is valid (true, no error) and \<open>1.1\<close> is invalid (false, no
  error), which the required-range rule of \<open>validate\<close> turns into a mismatch. When the
  library rejects \<open>not-a-range\<close>, the result is that error, and the rule reports a
  hard error instead of a mismatch.
\<close>

theorem CheckVersionRange_partial_version:
  "(countChar CHR ''.'' version = 1 \<longrightarrow>
      CheckVersionRange lib version compare = CheckVersionRange lib (version @ ''.9999'') compare)
   \<and> (Make lib ''1.2.9999'' = Inr v12 \<and> Make lib ''1.1.9999'' = Inr v11
       \<and> ParseRange lib ''>=1.2.0 <2.0.0'' = Inr inRange \<and> inRange v12 \<and> \<not> inRange v11 \<longrightarrow>
        CheckVersionRange lib ''1.2'' ''>=1.2.0 <2.0.0'' = Inr True
      \<and> CheckVersionRange lib ''1.1'' ''>=1.2.0 <2.0.0'' = Inr False
      \<and> validate lib toolVersion locallyBuilt
           (config\<lparr>ImageVersion := Some ''1.1'', RequiredVersionRange := ''>=1.2.0 <2.0.0''\<rparr>)
         = validate_head lib toolVersion locallyBuilt
             (config\<lparr>ImageVersion := Some ''1.1'', RequiredVersionRange := ''>=1.2.0 <2.0.0''\<rparr>)
           @ [requiredMismatch
                (config\<lparr>ImageVersion := Some ''1.1'', RequiredVersionRange := ''>=1.2.0 <2.0.0''\<rparr>)])
   \<and> (Make lib ''1.2.9999'' = Inr v12 \<and> ParseRange lib ''not-a-range'' = Inl err \<longrightarrow>
        CheckVersionRange lib ''1.2'' ''not-a-range'' = Inl err
      \<and> validate lib toolVersion locallyBuilt
           (config\<lparr>ImageVersion := Some ''1.2'', RequiredVersionRange := ''not-a-range''\<rparr>)
         = validate_head lib toolVersion locallyBuilt
             (config\<lparr>ImageVersion := Some ''1.2'', RequiredVersionRange := ''not-a-range''\<rparr>)
           @ [requiredError ''1.2''
                (config\<lparr>ImageVersion := Some ''1.2'', RequiredVersionRange := ''not-a-range''\<rparr>) err])"
proof (intro conjI impI)
  assume "countChar CHR ''.'' version = 1"
  then show "CheckVersionRange lib version compare
               = CheckVersionRange lib (version @ ''.9999'') compare"
    by (simp add: CheckVersionRange_def countChar_append)
next
  assume lib: "Make lib ''1.2.9999'' = Inr v12 \<and> Make lib ''1.1.9999'' = Inr v11
       \<and> ParseRange lib ''>=1.2.0 <2.0.0'' = Inr inRange \<and> inRange v12 \<and> \<not> inRange v11"
  then show "CheckVersionRange lib ''1.2'' ''>=1.2.0 <2.0.0'' = Inr True"
    by (simp add: CheckVersionRange_def)
  from lib show c: "CheckVersionRange lib ''1.1'' ''>=1.2.0 <2.0.0'' = Inr False"
    by (simp add: CheckVersionRange_def)
  show "validate lib toolVersion locallyBuilt
           (config\<lparr>ImageVersion := Some ''1.1'', RequiredVersionRange := ''>=1.2.0 <2.0.0''\<rparr>)
         = validate_head lib toolVersion locallyBuilt
             (config\<lparr>ImageVersion := Some ''1.1'', RequiredVersionRange := ''>=1.2.0 <2.0.0''\<rparr>)
           @ [requiredMismatch
                (config\<lparr>ImageVersion := Some ''1.1'', RequiredVersionRange := ''>=1.2.0 <2.0.0''\<rparr>)]"
    by (simp add: validate_def c requiredMismatch_def isDigit_def Let_def)
next
  assume lib: "Make lib ''1.2.9999'' = Inr v12 \<and> ParseRange lib ''not-a-range'' = Inl err"
  then show c: "CheckVersionRange lib ''1.2'' ''not-a-range'' = Inl err"
    by (simp add: CheckVersionRange_def)
  show "validate lib toolVersion locallyBuilt
           (config\<lparr>ImageVersion := Some ''1.2'', RequiredVersionRange := ''not-a-range''\<rparr>)
         = validate_head lib toolVersion locallyBuilt
             (config\<lparr>ImageVersion := Some ''1.2'', RequiredVersionRange := ''not-a-range''\<rparr>)
           @ [requiredError ''1.2''
                (config\<lparr>ImageVersion := Some ''1.2'', RequiredVersionRange := ''not-a-range''\<rparr>) err]"
    by (simp add: validate_def c requiredError_def isDigit_def Let_def)
qed

theorem CheckVersionRange_partial_version_witness:
  "CheckVersionRange plainSemver ''1.2'' ''>=1.2.0 <2.0.0'' = Inr True
   \<and> CheckVersionRange plainSemver ''1.1'' ''>=1.2.0 <2.0.0'' = Inr False
   \<and> CheckVersionRange plainSemver ''1.2'' ''not-a-range''
       = Inl ''Could not get version from string: not-a-range''
   \<and> CheckVersionRange plainSemver ''1.2'' ''>=1.2.0 <2.0.0''
       = CheckVersionRange plainSemver ''1.2.9999'' ''>=1.2.0 <2.0.0''"
proof -
  have m: "Make plainSemver ''1.2.9999'' = Inr (1, 2, 9999)"
          "Make plainSemver ''1.1.9999'' = Inr (1, 1, 9999)"
    by (simp_all add: plainSemver_def plainMake_def parseNumber_def isDigit_def digitValue_def)
  obtain r where r: "ParseRange plainSemver ''>=1.2.0 <2.0.0'' = Inr r"
      and r12: "r (1, 2, 9999)" and r11: "\<not> r (1, 1, 9999)"
    by (simp add: plainSemver_def plainParseRange_def plainComparator_def plainMake_def
          parseNumber_def isDigit_def digitValue_def versionLess_def Let_def)
  have e: "ParseRange plainSemver ''not-a-range''
             = Inl ''Could not get version from string: not-a-range''"
    by (simp add: plainSemver_def plainParseRange_def plainComparator_def isDigit_def Let_def)
  have d: "countChar CHR ''.'' ''1.2'' = 1"
    by simp
  note T = CheckVersionRange_partial_version [of "''1.2''" plainSemver "''>=1.2.0 <2.0.0''"
            "(1, 2, 9999)" "(1, 1, 9999)" r "''1.0.0''" "''(Locally Built)''" InitConfig_literal
            "''Could not get version from string: not-a-range''"]
  from T d have g4: "CheckVersionRange plainSemver ''1.2'' ''>=1.2.0 <2.0.0''
       = CheckVersionRange plainSemver (''1.2'' @ ''.9999'') ''>=1.2.0 <2.0.0''"
    by blast
  from T m r r12 r11 have g1: "CheckVersionRange plainSemver ''1.2'' ''>=1.2.0 <2.0.0'' = Inr True"
    and g2: "CheckVersionRange plainSemver ''1.1'' ''>=1.2.0 <2.0.0'' = Inr False"
    by blast+
  from T m e have g3: "CheckVersionRange plainSemver ''1.2'' ''not-a-range''
       = Inl ''Could not get version from string: not-a-range''"
    by blast
  from g1 g2 g3 g4 show ?thesis
    by simp
qed


text \<open>
  C5. A required range is set and the image version is present and version-shaped.
  If the range is malformed, \<open>validate\<close> ends with the hard error (no later rule
  adds anything) and \<open>ValidateVersion\<close> returns false. If the version is out of
  range, \<open>validate\<close> ends with the mismatch; \<open>ValidateVersion\<close> then returns what
  the earlier findings alone give, made false when the image version of the command line
  is the sentinel \<open>-\<close> (not forced) and left as it is when the version was forced. So,
  when no earlier rule reported a hard error, it returns false exactly when the version
  was not forced.
\<close>

theorem validate_required_range:
  assumes "RequiredVersionRange config \<noteq> ''''" and "ImageVersion config = Some imageVersion"
      and "imageVersion \<noteq> ''''" and "reVersion_MatchString imageVersion"
  shows "(CheckVersionRange lib imageVersion (RequiredVersionRange config) = Inl err \<longrightarrow>
            validate lib toolVersion locallyBuilt config =
              validate_head lib toolVersion locallyBuilt config @ [requiredError imageVersion config err]
          \<and> \<not> ValidateVersion lib toolVersion locallyBuilt app config)
       \<and> (CheckVersionRange lib imageVersion (RequiredVersionRange config) = Inr False \<longrightarrow>
            validate lib toolVersion locallyBuilt config =
              validate_head lib toolVersion locallyBuilt config @ [requiredMismatch config]
          \<and> ValidateVersion lib toolVersion locallyBuilt app config =
              (ValidateVersion_range (CliImageVersion app)
                 (validate_head lib toolVersion locallyBuilt config)
               \<and> CliImageVersion app \<noteq> ''-'')
          \<and> (noHardError (validate_head lib toolVersion locallyBuilt config) \<longrightarrow>
                (\<not> ValidateVersion lib toolVersion locallyBuilt app config)
                  = (CliImageVersion app = ''-'')))"
proof (intro conjI impI)
  assume c: "CheckVersionRange lib imageVersion (RequiredVersionRange config) = Inl err"
  with assms show v: "validate lib toolVersion locallyBuilt config =
      validate_head lib toolVersion locallyBuilt config @ [requiredError imageVersion config err]"
    by (simp add: validate_def requiredError_def Let_def)
  show "\<not> ValidateVersion lib toolVersion locallyBuilt app config"
    by (simp add: ValidateVersion_def v ValidateVersion_range_append requiredError_def Let_def)
next
  assume c: "CheckVersionRange lib imageVersion (RequiredVersionRange config) = Inr False"
  with assms show v: "validate lib toolVersion locallyBuilt config =
      validate_head lib toolVersion locallyBuilt config @ [requiredMismatch config]"
    by (simp add: validate_def requiredMismatch_def Let_def)
  show r: "ValidateVersion lib toolVersion locallyBuilt app config =
              (ValidateVersion_range (CliImageVersion app)
                 (validate_head lib toolVersion locallyBuilt config)
               \<and> CliImageVersion app \<noteq> ''-'')"
    by (auto simp add: ValidateVersion_def v ValidateVersion_range_append requiredMismatch_def
          Let_def)
  assume "noHardError (validate_head lib toolVersion locallyBuilt config)"
  then show "(\<not> ValidateVersion lib toolVersion locallyBuilt app config)
                  = (CliImageVersion app = ''-'')"
    by (simp add: r ValidateVersion_range_head)
qed

theorem validate_required_range_witness:
  "\<not> ValidateVersion plainSemver ''1.0.0'' ''(Locally Built)'' cliApp requiredConfig
   \<and> ValidateVersion plainSemver ''1.0.0'' ''(Locally Built)''
       (cliApp\<lparr>CliImageVersion := ''1.1''\<rparr>) requiredConfig
   \<and> \<not> ValidateVersion plainSemver ''1.0.0'' ''(Locally Built)''
       (cliApp\<lparr>CliImageVersion := ''1.1''\<rparr>)
       (requiredConfig\<lparr>RequiredVersionRange := ''not-a-range''\<rparr>)"
proof -
  have pre: "RequiredVersionRange requiredConfig \<noteq> ''''" "ImageVersion requiredConfig = Some ''1.1''"
            "''1.1'' \<noteq> ''''" "reVersion_MatchString ''1.1''"
    by (simp_all add: requiredConfig_def isDigit_def)
  have pre': "RequiredVersionRange (requiredConfig\<lparr>RequiredVersionRange := ''not-a-range''\<rparr>) \<noteq> ''''"
             "ImageVersion (requiredConfig\<lparr>RequiredVersionRange := ''not-a-range''\<rparr>) = Some ''1.1''"
    by (simp_all add: requiredConfig_def)
  have c: "CheckVersionRange plainSemver ''1.1'' (RequiredVersionRange requiredConfig) = Inr False"
    by (simp add: requiredConfig_def CheckVersionRange_def plainSemver_def plainParseRange_def
          plainComparator_def plainMake_def parseNumber_def isDigit_def digitValue_def
          versionLess_def Let_def)
  have e: "CheckVersionRange plainSemver ''1.1''
             (RequiredVersionRange (requiredConfig\<lparr>RequiredVersionRange := ''not-a-range''\<rparr>))
           = Inl ''Could not get version from string: not-a-range''"
    by (simp add: CheckVersionRange_def plainSemver_def plainParseRange_def
          plainComparator_def plainMake_def parseNumber_def isDigit_def digitValue_def Let_def)
  have h: "validate_head plainSemver ''1.0.0'' ''(Locally Built)'' requiredConfig = []"
    by (simp add: validate_head_def requiredConfig_def InitConfig_literal_def zeroConfig_def
          containsAny_def hasPrefix_def Let_def)
  have n: "noHardError (validate_head plainSemver ''1.0.0'' ''(Locally Built)'' requiredConfig)"
          "ValidateVersion_range c (validate_head plainSemver ''1.0.0'' ''(Locally Built)'' requiredConfig)" for c
    by (simp_all add: h noHardError_def)
  note M = validate_required_range [OF pre, of plainSemver _ "''1.0.0''" "''(Locally Built)''"]
  from M [of _ cliApp] c n have g1:
    "\<not> ValidateVersion plainSemver ''1.0.0'' ''(Locally Built)'' cliApp requiredConfig"
    by (simp add: cliApp_def)
  from M [of _ "cliApp\<lparr>CliImageVersion := ''1.1''\<rparr>"] c n have g2:
    "ValidateVersion plainSemver ''1.0.0'' ''(Locally Built)''
       (cliApp\<lparr>CliImageVersion := ''1.1''\<rparr>) requiredConfig"
    by simp
  from validate_required_range [OF pre'(1) pre'(2) pre(3) pre(4), of plainSemver
         "''Could not get version from string: not-a-range''" "''1.0.0''" "''(Locally Built)''"
         "cliApp\<lparr>CliImageVersion := ''1.1''\<rparr>"] e
  have g3: "\<not> ValidateVersion plainSemver ''1.0.0'' ''(Locally Built)''
       (cliApp\<lparr>CliImageVersion := ''1.1''\<rparr>)
       (requiredConfig\<lparr>RequiredVersionRange := ''not-a-range''\<rparr>)"
    by blast
  from g1 g2 g3 show ?thesis
    by blast
qed

subsection \<open>Image name\<close>

text \<open>
  C8. For every image name, optional image version and optional image tag,
  \<open>GetImageName\<close> composes \<open>repository[:version[-tag]]\<close> by the rule of the
  specification: hyphen only between a non-empty version and a non-empty tag, colon only
  before a suffix of at least two characters. The three examples of the specification
  evaluate to \<open>foo:1.0\<close>, \<open>foo\<close> and \<open>foo:1.0-k8s\<close>.
\<close>

theorem GetImageName_composition:
  "GetImageName config =
     image_name_rule (Image config) (str_or_empty (ImageVersion config)) (str_or_empty (ImageTag config))
   \<and> GetImageName (config\<lparr>Image := ''foo'', ImageVersion := Some ''1.0'', ImageTag := Some ''''\<rparr>) = ''foo:1.0''
   \<and> GetImageName (config\<lparr>Image := ''foo'', ImageVersion := Some '''', ImageTag := Some ''''\<rparr>) = ''foo''
   \<and> GetImageName (config\<lparr>Image := ''foo'', ImageVersion := Some ''1.0'', ImageTag := Some ''k8s''\<rparr>) = ''foo:1.0-k8s''"
  by (auto simp add: GetImageName_def image_name_rule_def str_or_empty_def tagSeparator_def
        Let_def Suc_le_eq split: option.splits)

end
